theory Spec2Isabelle
  imports Complex_Main "HOL-Library.Multiset"
begin

section \<open>Python values\<close>

text \<open>
  The upstream answer is JSON, and a station record is a Python \<^verbatim>\<open>dict\<close> from field
  names to JSON values: here a map from strings to \<^verbatim>\<open>None\<close>, booleans, integers and
  strings. A Python \<^verbatim>\<open>str\<close> is the list of the bytes of its UTF-8 encoding. JSON numbers
  with a fractional part are left out of the record values (the upstream publishes every
  field as a string).
\<close>

datatype pyval = PNone | PBool bool | PInt int | PStr string

type_synonym pydict = "string \<rightharpoonup> pyval"

datatype error = KeyError string | TypeError | ValueError | OverflowError | HTTPError

text \<open>\<^verbatim>\<open>d[k]\<close> raises \<^verbatim>\<open>KeyError\<close> on a missing key; \<^verbatim>\<open>d.get(k, default)\<close> does not.\<close>

definition dict_item :: "pydict \<Rightarrow> string \<Rightarrow> error + pyval" where
  "dict_item d k = (case d k of None \<Rightarrow> Inl (KeyError k) | Some v \<Rightarrow> Inr v)"

definition dict_get :: "pydict \<Rightarrow> string \<Rightarrow> pyval \<Rightarrow> pyval" where
  "dict_get d k dflt = (case d k of None \<Rightarrow> dflt | Some v \<Rightarrow> v)"

subsection \<open>The builtin \<^verbatim>\<open>int\<close>\<close>

text \<open>
  \<^verbatim>\<open>int(s)\<close> on a string is the interpreter's own parser, not code of this repository.
  It is a parameter \<open>ints\<close> of the model: \<open>ints s = Some n\<close> when \<^verbatim>\<open>int(s)\<close> is \<open>n\<close>, and
  \<open>ints s = None\<close> when it raises \<^verbatim>\<open>ValueError\<close>. On the other values \<^verbatim>\<open>int\<close> is fixed:
  \<^verbatim>\<open>None\<close> raises \<^verbatim>\<open>TypeError\<close>, a boolean is 1 or 0, an integer is itself.
\<close>

definition py_int :: "(string \<Rightarrow> int option) \<Rightarrow> pyval \<Rightarrow> error + int" where
  "py_int ints v =
     (case v of
        PNone \<Rightarrow> Inl TypeError
      | PBool b \<Rightarrow> Inr (if b then 1 else 0)
      | PInt i \<Rightarrow> Inr i
      | PStr s \<Rightarrow> (case ints s of None \<Rightarrow> Inl ValueError | Some i \<Rightarrow> Inr i))"

subsection \<open>The builtin \<^verbatim>\<open>str\<close> and equality\<close>

definition digit_char :: "nat \<Rightarrow> char" where
  "digit_char n = ''0123456789'' ! n"

fun show_nat :: "nat \<Rightarrow> string" where
  "show_nat n = (if n < 10 then [digit_char n] else show_nat (n div 10) @ [digit_char (n mod 10)])"

declare show_nat.simps [simp del]

definition show_int :: "int \<Rightarrow> string" where
  "show_int i = (if i < 0 then CHR ''-'' # show_nat (nat (- i)) else show_nat (nat i))"

text \<open>What an f-string writes for a value: \<^verbatim>\<open>str(v)\<close>.\<close>

definition py_str :: "pyval \<Rightarrow> string" where
  "py_str v =
     (case v of
        PNone \<Rightarrow> ''None''
      | PBool b \<Rightarrow> (if b then ''True'' else ''False'')
      | PInt i \<Rightarrow> show_int i
      | PStr s \<Rightarrow> s)"

text \<open>
  \<^verbatim>\<open>a == b\<close>: \<^verbatim>\<open>None\<close> equals only itself, strings compare by content, and booleans
  compare with integers as the numbers 1 and 0.
\<close>

definition py_eq :: "pyval \<Rightarrow> pyval \<Rightarrow> bool" where
  "py_eq a b =
     (case (a, b) of
        (PNone, PNone) \<Rightarrow> True
      | (PStr s, PStr t) \<Rightarrow> s = t
      | (PBool x, PBool y) \<Rightarrow> x = y
      | (PBool x, PInt j) \<Rightarrow> (if x then 1 else 0) = j
      | (PInt i, PBool y) \<Rightarrow> i = (if y then 1 else 0)
      | (PInt i, PInt j) \<Rightarrow> i = j
      | _ \<Rightarrow> False)"

definition py_ne :: "pyval \<Rightarrow> pyval \<Rightarrow> bool" where
  "py_ne a b = (\<not> py_eq a b)"

section \<open>Floats\<close>

text \<open>
  A Python float is not-a-number, an infinity, or a finite number; the two zeros are one
  value here. What the interpreter and its \<^verbatim>\<open>math\<close> module compute on floats, with their
  rounding, is not code of this repository: it is the parameter \<open>lib\<close> of the model, a
  record of the operations that \<^verbatim>\<open>haversine\<close> and \<^verbatim>\<open>find_nearest\<close> use.
  \<^verbatim>\<open>math.sin\<close>, \<^verbatim>\<open>math.cos\<close> and \<^verbatim>\<open>math.sqrt\<close> may raise \<^verbatim>\<open>ValueError\<close>, and
  \<^verbatim>\<open>float\<close> may raise \<^verbatim>\<open>ValueError\<close> on a string and \<^verbatim>\<open>OverflowError\<close> on an integer:
  these return \<open>None\<close> when they raise.
\<close>

datatype pyfloat = NaN | NegInf | Finite real | PosInf

record pymath =
  float_of_str :: "string \<Rightarrow> pyfloat option"
  float_of_int :: "int \<Rightarrow> pyfloat option"
  f_radians :: "pyfloat \<Rightarrow> pyfloat"
  f_sub :: "pyfloat \<Rightarrow> pyfloat \<Rightarrow> pyfloat"
  f_div2 :: "pyfloat \<Rightarrow> pyfloat"
  f_sin :: "pyfloat \<Rightarrow> pyfloat option"
  f_cos :: "pyfloat \<Rightarrow> pyfloat option"
  f_pow2 :: "pyfloat \<Rightarrow> pyfloat"
  f_mul :: "pyfloat \<Rightarrow> pyfloat \<Rightarrow> pyfloat"
  f_add :: "pyfloat \<Rightarrow> pyfloat \<Rightarrow> pyfloat"
  f_sqrt :: "pyfloat \<Rightarrow> pyfloat option"
  f_atan2 :: "pyfloat \<Rightarrow> pyfloat \<Rightarrow> pyfloat"

text \<open>\<^verbatim>\<open>a <= b\<close> on floats: false when either is not-a-number.\<close>

definition float_le :: "pyfloat \<Rightarrow> pyfloat \<Rightarrow> bool" where
  "float_le a b =
     (case (a, b) of
        (NaN, _) \<Rightarrow> False
      | (_, NaN) \<Rightarrow> False
      | (NegInf, _) \<Rightarrow> True
      | (_, PosInf) \<Rightarrow> True
      | (Finite x, Finite y) \<Rightarrow> x \<le> y
      | _ \<Rightarrow> False)"

text \<open>
  The order in which \<^verbatim>\<open>list.sort\<close> arranges float keys: \<^verbatim>\<open>a < b\<close> of Python on
  all floats but not-a-number, which stands below the others here. (No key of
  \<^verbatim>\<open>find_nearest\<close> is not-a-number: each has passed \<^verbatim>\<open>d <= max_km\<close>.)
\<close>

instantiation pyfloat :: linorder
begin

definition less_eq_pyfloat :: "pyfloat \<Rightarrow> pyfloat \<Rightarrow> bool" where
  "less_eq_pyfloat a b =
     (case (a, b) of
        (NaN, _) \<Rightarrow> True
      | (_, NaN) \<Rightarrow> False
      | (NegInf, _) \<Rightarrow> True
      | (_, PosInf) \<Rightarrow> True
      | (Finite x, Finite y) \<Rightarrow> x \<le> y
      | _ \<Rightarrow> False)"

definition less_pyfloat :: "pyfloat \<Rightarrow> pyfloat \<Rightarrow> bool" where
  "less_pyfloat a b = (a \<le> b \<and> \<not> b \<le> a)"

instance
proof
  fix a b c :: pyfloat
  show "(a < b) = (a \<le> b \<and> \<not> b \<le> a)"
    by (simp add: less_pyfloat_def)
  show "a \<le> a"
    by (cases a) (simp_all add: less_eq_pyfloat_def)
  show "a \<le> b \<Longrightarrow> b \<le> c \<Longrightarrow> a \<le> c"
    by (cases a; cases b; cases c) (simp_all add: less_eq_pyfloat_def)
  show "a \<le> b \<Longrightarrow> b \<le> a \<Longrightarrow> a = b"
    by (cases a; cases b) (simp_all add: less_eq_pyfloat_def)
  show "a \<le> b \<or> b \<le> a"
    by (cases a; cases b) (auto simp: less_eq_pyfloat_def)
qed

end

subsection \<open>The builtin \<^verbatim>\<open>float\<close>\<close>

definition py_float :: "pymath \<Rightarrow> pyval \<Rightarrow> error + pyfloat" where
  "py_float lib v =
     (case v of
        PNone \<Rightarrow> Inl TypeError
      | PBool b \<Rightarrow> Inr (Finite (if b then 1 else 0))
      | PInt i \<Rightarrow> (case float_of_int lib i of None \<Rightarrow> Inl OverflowError | Some x \<Rightarrow> Inr x)
      | PStr s \<Rightarrow> (case float_of_str lib s of None \<Rightarrow> Inl ValueError | Some x \<Rightarrow> Inr x))"

section \<open>Distance: \<^verbatim>\<open>haversine\<close>\<close>

text \<open>
  The intermediate \<^verbatim>\<open>a\<close> of \<^verbatim>\<open>haversine\<close>, its operations in the order in which
  Python evaluates them; \<open>None\<close> when \<^verbatim>\<open>math.sin\<close> or \<^verbatim>\<open>math.cos\<close> raises.
\<close>

definition haversine_a :: "pymath \<Rightarrow> pyfloat \<Rightarrow> pyfloat \<Rightarrow> pyfloat \<Rightarrow> pyfloat \<Rightarrow> pyfloat option" where
  "haversine_a lib lat1 lon1 lat2 lon2 =
     (let phi1 = f_radians lib lat1; phi2 = f_radians lib lat2;
          dphi = f_radians lib (f_sub lib lat2 lat1);
          dlam = f_radians lib (f_sub lib lon2 lon1)
      in case f_sin lib (f_div2 lib dphi) of
           None \<Rightarrow> None
         | Some s1 \<Rightarrow>
             (case f_cos lib phi1 of
                None \<Rightarrow> None
              | Some c1 \<Rightarrow>
                  (case f_cos lib phi2 of
                     None \<Rightarrow> None
                   | Some c2 \<Rightarrow>
                       (case f_sin lib (f_div2 lib dlam) of
                          None \<Rightarrow> None
                        | Some s2 \<Rightarrow>
                            Some (f_add lib (f_pow2 lib s1)
                                    (f_mul lib (f_mul lib c1 c2) (f_pow2 lib s2)))))))"

text \<open>
  \<^verbatim>\<open>R * 2\<close> is a product of integers, \<open>6371 * 2\<close>, which Python then multiplies, as
  a float, with the result of \<^verbatim>\<open>math.atan2\<close>.
\<close>

definition haversine :: "pymath \<Rightarrow> pyfloat \<Rightarrow> pyfloat \<Rightarrow> pyfloat \<Rightarrow> pyfloat \<Rightarrow> error + pyfloat" where
  "haversine lib lat1 lon1 lat2 lon2 =
     (let R = 6371
      in case haversine_a lib lat1 lon1 lat2 lon2 of
           None \<Rightarrow> Inl ValueError
         | Some a \<Rightarrow>
             (case f_sqrt lib a of
                None \<Rightarrow> Inl ValueError
              | Some sa \<Rightarrow>
                  (case f_sqrt lib (f_sub lib (Finite 1) a) of
                     None \<Rightarrow> Inl ValueError
                   | Some sb \<Rightarrow> Inr (f_mul lib (Finite (R * 2)) (f_atan2 lib sa sb)))))"

section \<open>Station matching: \<^verbatim>\<open>find_nearest\<close>\<close>

text \<open>
  The two conversions inside the \<^verbatim>\<open>try\<close> block, left to right. Whatever they raise,
  the bare \<^verbatim>\<open>except\<close> skips the record.
\<close>

definition coords :: "pymath \<Rightarrow> pydict \<Rightarrow> error + pyfloat \<times> pyfloat" where
  "coords lib r =
     (case dict_item r ''latitude'' of
        Inl e \<Rightarrow> Inl e
      | Inr a \<Rightarrow>
          (case py_float lib a of
             Inl e \<Rightarrow> Inl e
           | Inr rl \<Rightarrow>
               (case dict_item r ''longitude'' of
                  Inl e \<Rightarrow> Inl e
                | Inr b \<Rightarrow>
                    (case py_float lib b of
                       Inl e \<Rightarrow> Inl e
                     | Inr rn \<Rightarrow> Inr (rl, rn)))))"

text \<open>
  The \<^verbatim>\<open>for\<close> loop with its accumulator \<^verbatim>\<open>candidates\<close>. The call of \<^verbatim>\<open>haversine\<close> is
  outside the \<^verbatim>\<open>try\<close> block, so an error there leaves the function.
\<close>

fun find_nearest_loop ::
  "pymath \<Rightarrow> pydict list \<Rightarrow> pyfloat \<Rightarrow> pyfloat \<Rightarrow> pyfloat \<Rightarrow>
     (pydict \<times> pyfloat) list \<Rightarrow> error + (pydict \<times> pyfloat) list" where
  "find_nearest_loop lib [] lat lon max_km candidates = Inr candidates"
| "find_nearest_loop lib (r # rs) lat lon max_km candidates =
     (case coords lib r of
        Inl _ \<Rightarrow> find_nearest_loop lib rs lat lon max_km candidates
      | Inr (rl, rn) \<Rightarrow>
          (case haversine lib lat lon rl rn of
             Inl e \<Rightarrow> Inl e
           | Inr d \<Rightarrow>
               if float_le d max_km
               then find_nearest_loop lib rs lat lon max_km (candidates @ [(r, d)])
               else find_nearest_loop lib rs lat lon max_km candidates))"

text \<open>
  \<^verbatim>\<open>list.sort(key=...)\<close> is a stable sort; \<^const>\<open>sort_key\<close> is one. Every caller passes
  \<^verbatim>\<open>max_km\<close>, so its default value 10 plays no part.
\<close>

definition find_nearest ::
  "pymath \<Rightarrow> pydict list \<Rightarrow> pyfloat \<Rightarrow> pyfloat \<Rightarrow> pyfloat \<Rightarrow> error + pydict list" where
  "find_nearest lib records lat lon max_km =
     (case find_nearest_loop lib records lat lon max_km [] of
        Inl e \<Rightarrow> Inl e
      | Inr candidates \<Rightarrow> Inr (map fst (sort_key snd candidates)))"

section \<open>Notification payload: \<^verbatim>\<open>build_embed\<close>\<close>

text \<open>The string literals of the payload that are not ASCII, as UTF-8 bytes.\<close>

definition remark_no_data :: string where
  "remark_no_data =
     [CHR 0xE7, CHR 0x84, CHR 0xA1, CHR 0xE8, CHR 0xB3, CHR 0x87, CHR 0xE6, CHR 0x96, CHR 0x99]"

definition remark_good :: string where
  "remark_good =
     [CHR 0xF0, CHR 0x9F, CHR 0x91, CHR 0x8D] @
     '' '' @
     [CHR 0xE7, CHR 0xA9, CHR 0xBA, CHR 0xE6, CHR 0xB0, CHR 0xA3, CHR 0xE5, CHR 0x93, CHR 0x81,
      CHR 0xE8, CHR 0xB3, CHR 0xAA, CHR 0xE8, CHR 0x89, CHR 0xAF, CHR 0xE5, CHR 0xA5, CHR 0xBD,
      CHR 0xEF, CHR 0xBC, CHR 0x8C, CHR 0xE9, CHR 0x81, CHR 0xA9, CHR 0xE5, CHR 0x90, CHR 0x88,
      CHR 0xE6, CHR 0x88, CHR 0xB6, CHR 0xE5, CHR 0xA4, CHR 0x96, CHR 0xE6, CHR 0xB4, CHR 0xBB,
      CHR 0xE5, CHR 0x8B, CHR 0x95] @
     ''!''"

definition remark_moderate :: string where
  "remark_moderate =
     [CHR 0xF0, CHR 0x9F, CHR 0x91, CHR 0x8C] @
     '' '' @
     [CHR 0xE6, CHR 0x99, CHR 0xAE, CHR 0xE9, CHR 0x80, CHR 0x9A, CHR 0xEF, CHR 0xBC, CHR 0x8C,
      CHR 0xE9, CHR 0x95, CHR 0xB7, CHR 0xE6, CHR 0x99, CHR 0x82, CHR 0xE9, CHR 0x96, CHR 0x93,
      CHR 0xE6, CHR 0x88, CHR 0xB6, CHR 0xE5, CHR 0xA4, CHR 0x96, CHR 0xE8, CHR 0xA6, CHR 0x81,
      CHR 0xE6, CHR 0xB3, CHR 0xA8, CHR 0xE6, CHR 0x84, CHR 0x8F, CHR 0xE9, CHR 0xAB, CHR 0x94,
      CHR 0xE6, CHR 0x84, CHR 0x9F, CHR 0xE3, CHR 0x80, CHR 0x82]"

definition remark_sensitive :: string where
  "remark_sensitive =
     [CHR 0xE2, CHR 0x9A, CHR 0xA0, CHR 0xEF, CHR 0xB8, CHR 0x8F] @
     '' '' @
     [CHR 0xE5, CHR 0xB0, CHR 0x8D, CHR 0xE6, CHR 0x95, CHR 0x8F, CHR 0xE6, CHR 0x84, CHR 0x9F,
      CHR 0xE6, CHR 0x97, CHR 0x8F, CHR 0xE7, CHR 0xBE, CHR 0xA4, CHR 0xE4, CHR 0xB8, CHR 0x8D,
      CHR 0xE4, CHR 0xBD, CHR 0xB3, CHR 0xEF, CHR 0xBC, CHR 0x8C, CHR 0xE8, CHR 0xAB, CHR 0x8B,
      CHR 0xE6, CHR 0xB8, CHR 0x9B, CHR 0xE5, CHR 0xB0, CHR 0x91, CHR 0xE6, CHR 0x88, CHR 0xB6,
      CHR 0xE5, CHR 0xA4, CHR 0x96, CHR 0xE6, CHR 0xB4, CHR 0xBB, CHR 0xE5, CHR 0x8B, CHR 0x95,
      CHR 0xE3, CHR 0x80, CHR 0x82]"

definition remark_unhealthy :: string where
  "remark_unhealthy =
     [CHR 0xE2, CHR 0x9A, CHR 0xA0, CHR 0xEF, CHR 0xB8, CHR 0x8F] @
     '' '' @
     [CHR 0xE5, CHR 0xB0, CHR 0x8D, CHR 0xE6, CHR 0x89, CHR 0x80, CHR 0xE6, CHR 0x9C, CHR 0x89,
      CHR 0xE6, CHR 0x97, CHR 0x8F, CHR 0xE7, CHR 0xBE, CHR 0xA4, CHR 0xE4, CHR 0xB8, CHR 0x8D,
      CHR 0xE5, CHR 0x81, CHR 0xA5, CHR 0xE5, CHR 0xBA, CHR 0xB7, CHR 0xEF, CHR 0xBC, CHR 0x8C,
      CHR 0xE5, CHR 0xBB, CHR 0xBA, CHR 0xE8, CHR 0xAD, CHR 0xB0, CHR 0xE6, CHR 0xB8, CHR 0x9B,
      CHR 0xE5, CHR 0xB0, CHR 0x91, CHR 0xE5, CHR 0xA4, CHR 0x96, CHR 0xE5, CHR 0x87, CHR 0xBA,
      CHR 0xE3, CHR 0x80, CHR 0x82]"

definition remark_very_unhealthy :: string where
  "remark_very_unhealthy =
     [CHR 0xF0, CHR 0x9F, CHR 0x9A, CHR 0xA8] @
     '' '' @
     [CHR 0xE9, CHR 0x9D, CHR 0x9E, CHR 0xE5, CHR 0xB8, CHR 0xB8, CHR 0xE4, CHR 0xB8, CHR 0x8D,
      CHR 0xE5, CHR 0x81, CHR 0xA5, CHR 0xE5, CHR 0xBA, CHR 0xB7, CHR 0xEF, CHR 0xBC, CHR 0x8C,
      CHR 0xE5, CHR 0xBB, CHR 0xBA, CHR 0xE8, CHR 0xAD, CHR 0xB0, CHR 0xE9, CHR 0x81, CHR 0xBF,
      CHR 0xE5, CHR 0x85, CHR 0x8D, CHR 0xE5, CHR 0xA4, CHR 0x96, CHR 0xE5, CHR 0x87, CHR 0xBA,
      CHR 0xE3, CHR 0x80, CHR 0x82]"

definition remark_hazardous :: string where
  "remark_hazardous =
     [CHR 0xE2, CHR 0x98, CHR 0xA0, CHR 0xEF, CHR 0xB8, CHR 0x8F] @
     '' '' @
     [CHR 0xE5, CHR 0x8D, CHR 0xB1, CHR 0xE5, CHR 0xAE, CHR 0xB3, CHR 0xE5, CHR 0x81, CHR 0xA5,
      CHR 0xE5, CHR 0xBA, CHR 0xB7, CHR 0xEF, CHR 0xBC, CHR 0x8C, CHR 0xE6, CHR 0x87, CHR 0x89,
      CHR 0xE7, CHR 0x95, CHR 0x99, CHR 0xE5, CHR 0x9C, CHR 0xA8, CHR 0xE5, CHR 0xAE, CHR 0xA4,
      CHR 0xE5, CHR 0x85, CHR 0xA7, CHR 0xE4, CHR 0xB8, CHR 0xA6, CHR 0xE6, CHR 0x8E, CHR 0xA1,
      CHR 0xE5, CHR 0x8F, CHR 0x96, CHR 0xE9, CHR 0x98, CHR 0xB2, CHR 0xE8, CHR 0xAD, CHR 0xB7,
      CHR 0xE6, CHR 0x8E, CHR 0xAA, CHR 0xE6, CHR 0x96, CHR 0xBD, CHR 0xE3, CHR 0x80, CHR 0x82]"

definition bot_username :: string where
  "bot_username =
     [CHR 0xE7, CHR 0xA9, CHR 0xBA, CHR 0xE6, CHR 0xB0, CHR 0xA3, CHR 0xE5, CHR 0xB0, CHR 0x8F,
      CHR 0xE5, CHR 0xB9, CHR 0xAB, CHR 0xE6, CHR 0x89, CHR 0x8B] @
     '' '' @
     [CHR 0xF0, CHR 0x9F, CHR 0x8C, CHR 0xA4, CHR 0xEF, CHR 0xB8, CHR 0x8F]"

definition embed_title :: string where
  "embed_title =
     [CHR 0xF0, CHR 0x9F, CHR 0x8C, CHR 0x86] @
     '' '' @
     [CHR 0xE7, CHR 0xA9, CHR 0xBA, CHR 0xE6, CHR 0xB0, CHR 0xA3, CHR 0xE5, CHR 0x93, CHR 0x81,
      CHR 0xE8, CHR 0xB3, CHR 0xAA, CHR 0xE5, CHR 0xBF, CHR 0xAB, CHR 0xE5, CHR 0xA0, CHR 0xB1]"

definition description_suffix :: string where
  "description_suffix =
     '' '' @
     [CHR 0xE7, CHR 0x95, CHR 0xB6, CHR 0xE5, CHR 0x89, CHR 0x8D, CHR 0xE7, CHR 0xA9, CHR 0xBA,
      CHR 0xE6, CHR 0xB0, CHR 0xA3, CHR 0xE5, CHR 0x93, CHR 0x81, CHR 0xE8, CHR 0xB3, CHR 0xAA,
      CHR 0xE6, CHR 0x95, CHR 0xB8, CHR 0xE6, CHR 0x93, CHR 0x9A, CHR 0xE5, CHR 0xA6, CHR 0x82,
      CHR 0xE4, CHR 0xB8, CHR 0x8B] @
     '':''"

definition name_region :: string where
  "name_region =
     [CHR 0xE5, CHR 0x9C, CHR 0xB0, CHR 0xE5, CHR 0x8D, CHR 0x80]"

definition name_status :: string where
  "name_status =
     [CHR 0xE7, CHR 0x8B, CHR 0x80, CHR 0xE6, CHR 0x85, CHR 0x8B]"

definition name_o3 :: string where
  "name_o3 =
     ''O'' @
     [CHR 0xE2, CHR 0x82, CHR 0x83]"

definition name_so2 :: string where
  "name_so2 =
     ''SO'' @
     [CHR 0xE2, CHR 0x82, CHR 0x82]"

definition name_no2 :: string where
  "name_no2 =
     ''NO'' @
     [CHR 0xE2, CHR 0x82, CHR 0x82]"

definition name_wind_speed :: string where
  "name_wind_speed =
     [CHR 0xE9, CHR 0xA2, CHR 0xA8, CHR 0xE9, CHR 0x80, CHR 0x9F] @
     ''(m/s)''"

definition name_wind_direc :: string where
  "name_wind_direc =
     [CHR 0xE9, CHR 0xA2, CHR 0xA8, CHR 0xE5, CHR 0x90, CHR 0x91] @
     ''('' @
     [CHR 0xC2, CHR 0xB0] @
     '')''"

definition name_publishtime :: string where
  "name_publishtime =
     [CHR 0xE6, CHR 0x9B, CHR 0xB4, CHR 0xE6, CHR 0x96, CHR 0xB0, CHR 0xE6, CHR 0x99, CHR 0x82,
      CHR 0xE9, CHR 0x96, CHR 0x93]"

definition name_remark :: string where
  "name_remark =
     [CHR 0xF0, CHR 0x9F, CHR 0x93, CHR 0x9D] @
     '' '' @
     [CHR 0xE5, CHR 0xBB, CHR 0xBA, CHR 0xE8, CHR 0xAD, CHR 0xB0, CHR 0xE6, CHR 0xB4, CHR 0xBB,
      CHR 0xE5, CHR 0x8B, CHR 0x95]"

definition footer_text :: string where
  "footer_text =
     [CHR 0xE7, CHR 0x94, CHR 0xB1, CHR 0xE5, CHR 0xBD, CHR 0xAD, CHR 0xE5, CHR 0xA4, CHR 0xA7,
      CHR 0xE5, CHR 0xB8, CHR 0xA5, CHR 0xE5, CHR 0x9C, CHR 0x98, CHR 0xE9, CHR 0x9A, CHR 0x8A,
      CHR 0xE9, CHR 0x96, CHR 0x8B, CHR 0xE7, CHR 0x99, CHR 0xBC, CHR 0xE4, CHR 0xB8, CHR 0xAD]"

text \<open>The \<^verbatim>\<open>if\<close>/\<^verbatim>\<open>elif\<close> chain that assigns \<^verbatim>\<open>remark, color\<close> from \<^verbatim>\<open>aqi_val\<close>.\<close>

definition remark_color :: "int option \<Rightarrow> string \<times> nat" where
  "remark_color aqi_val =
     (case aqi_val of
        None \<Rightarrow> (remark_no_data, 0x808080)
      | Some n \<Rightarrow>
          if n \<le> 50 then (remark_good, 0x008000)
          else if n \<le> 100 then (remark_moderate, 0xFFFF00)
          else if n \<le> 150 then (remark_sensitive, 0xFFA500)
          else if n \<le> 200 then (remark_unhealthy, 0xFF0000)
          else if n \<le> 300 then (remark_very_unhealthy, 0x800080)
          else (remark_hazardous, 0xA52A2A))"

record embed_field =
  field_name :: string
  field_value :: pyval
  field_inline :: bool

record embed =
  title :: string
  description :: string
  color :: nat
  timestamp :: pyval
  embed_fields :: "embed_field list"
  footer :: string

record payload =
  username :: string
  content :: pyval
  embeds :: "embed list"

definition mk_field :: "string \<Rightarrow> pyval \<Rightarrow> bool \<Rightarrow> embed_field" where
  "mk_field n v i = \<lparr>field_name = n, field_value = v, field_inline = i\<rparr>"

definition build_embed :: "(string \<Rightarrow> int option) \<Rightarrow> pydict \<Rightarrow> error + payload" where
  "build_embed ints data =
     (let aqi = dict_get data ''aqi'' (PStr ''N/A'');
          aqi_val = (case py_int ints aqi of Inl _ \<Rightarrow> None | Inr n \<Rightarrow> Some n);
          (remark, color) = remark_color aqi_val
      in case dict_item data ''county'' of
           Inl e \<Rightarrow> Inl e
         | Inr county \<Rightarrow>
             (case dict_item data ''sitename'' of
                Inl e \<Rightarrow> Inl e
              | Inr sitename \<Rightarrow>
                  (let city = py_str county @ '' / '' @ py_str sitename
                   in Inr \<lparr>username = bot_username,
                           content = PNone,
                           embeds = [\<lparr>title = embed_title,
                             description = city @ description_suffix,
                             color = color,
                             timestamp = dict_get data ''publishtime_iso'' PNone,
                             embed_fields =
                               [mk_field name_region (PStr city) True,
                                mk_field ''AQI'' aqi True,
                                mk_field name_status (dict_get data ''status'' (PStr ''N/A'')) True,
                                mk_field ''PM2.5'' (dict_get data ''pm2.5'' (PStr ''N/A'')) True,
                                mk_field ''PM10'' (dict_get data ''pm10'' (PStr ''N/A'')) True,
                                mk_field name_o3 (dict_get data ''o3'' (PStr ''N/A'')) True,
                                mk_field ''CO'' (dict_get data ''co'' (PStr ''N/A'')) True,
                                mk_field name_so2 (dict_get data ''so2'' (PStr ''N/A'')) True,
                                mk_field name_no2 (dict_get data ''no2'' (PStr ''N/A'')) True,
                                mk_field name_wind_speed (dict_get data ''wind_speed'' (PStr ''N/A'')) True,
                                mk_field name_wind_direc (dict_get data ''wind_direc'' (PStr ''N/A'')) True,
                                mk_field name_publishtime (dict_get data ''publishtime'' (PStr ''N/A'')) False,
                                mk_field name_remark (PStr remark) False],
                             footer = footer_text\<rparr>]\<rparr>)))"

section \<open>The poll cycle: \<^verbatim>\<open>check_and_notify\<close>\<close>

text \<open>
  The state a poll cycle reads and writes: the module variable \<^verbatim>\<open>_last_import\<close>, the
  payloads handed to \<^verbatim>\<open>requests.post\<close> so far, and the errors that the handler of the
  cycle has printed. The variable starts as \<^verbatim>\<open>None\<close>.
\<close>

record poll_state =
  last_import :: pyval
  posted :: "payload list"
  printed :: "error list"

definition initial_state :: poll_state where
  "initial_state = \<lparr>last_import = PNone, posted = [], printed = []\<rparr>"

text \<open>
  \<^verbatim>\<open>send_to_discord\<close>: the request is made, and \<^verbatim>\<open>raise_for_status\<close> raises when the
  webhook does not accept it. The webhook is the parameter \<open>webhook\<close>.
\<close>

definition send_to_discord :: "(payload \<Rightarrow> bool) \<Rightarrow> payload \<Rightarrow> poll_state \<Rightarrow> error option \<times> poll_state" where
  "send_to_discord webhook p w =
     (let w' = w\<lparr>posted := posted w @ [p]\<rparr>
      in if webhook p then (None, w') else (Some HTTPError, w'))"

text \<open>
  One cycle. The first argument of the cycle proper is what \<^verbatim>\<open>fetch_all_records\<close>
  gave: the record list, or the error it raised. Every error is caught and printed.
\<close>

definition check_and_notify ::
  "(string \<Rightarrow> int option) \<Rightarrow> (payload \<Rightarrow> bool) \<Rightarrow> error + pydict list \<Rightarrow> poll_state \<Rightarrow>
     poll_state" where
  "check_and_notify ints webhook fetched w =
     (case fetched of
        Inl e \<Rightarrow> w\<lparr>printed := printed w @ [e]\<rparr>
      | Inr records \<Rightarrow>
          (case records of
             [] \<Rightarrow> w
           | r # _ \<Rightarrow>
               (case dict_item r ''ImportDate'' of
                  Inl e \<Rightarrow> w\<lparr>printed := printed w @ [e]\<rparr>
                | Inr newest \<Rightarrow>
                    if py_ne newest (last_import w) then
                      (let w1 = w\<lparr>last_import := newest\<rparr>
                       in case build_embed ints r of
                            Inl e \<Rightarrow> w1\<lparr>printed := printed w1 @ [e]\<rparr>
                          | Inr p \<Rightarrow>
                              (case send_to_discord webhook p w1 of
                                 (None, w2) \<Rightarrow> w2
                               | (Some e, w2) \<Rightarrow> w2\<lparr>printed := printed w2 @ [e]\<rparr>))
                    else w)))"

section \<open>Notions of the specification\<close>

text \<open>
  Properties of a float library that the statements about the distance refer to. The
  first: negating an argument negates the result of subtraction, of \<^verbatim>\<open>math.radians\<close>, of
  halving and of \<^verbatim>\<open>math.sin\<close> (which raises on both or on neither), squaring ignores
  the sign, and multiplication commutes. The second: the operations are exact on the
  values that occur when both points are the same finite point, and the cosine of a
  finite angle is a number between \<open>-1\<close> and \<open>1\<close>.
\<close>

definition f_neg :: "pyfloat \<Rightarrow> pyfloat" where
  "f_neg a = (case a of NaN \<Rightarrow> NaN | NegInf \<Rightarrow> PosInf | Finite x \<Rightarrow> Finite (- x) | PosInf \<Rightarrow> NegInf)"

definition sign_symmetric :: "pymath \<Rightarrow> bool" where
  "sign_symmetric lib =
     ((\<forall>x y. f_sub lib y x = f_neg (f_sub lib x y)) \<and>
      (\<forall>x. f_radians lib (f_neg x) = f_neg (f_radians lib x)) \<and>
      (\<forall>x. f_div2 lib (f_neg x) = f_neg (f_div2 lib x)) \<and>
      (\<forall>x. f_sin lib (f_neg x) = map_option f_neg (f_sin lib x)) \<and>
      (\<forall>x. f_pow2 lib (f_neg x) = f_pow2 lib x) \<and>
      (\<forall>x y. f_mul lib x y = f_mul lib y x))"

definition exact_at_zero :: "pymath \<Rightarrow> bool" where
  "exact_at_zero lib =
     ((\<forall>x. f_sub lib (Finite x) (Finite x) = Finite 0) \<and>
      f_radians lib (Finite 0) = Finite 0 \<and>
      f_div2 lib (Finite 0) = Finite 0 \<and>
      f_sin lib (Finite 0) = Some (Finite 0) \<and>
      f_pow2 lib (Finite 0) = Finite 0 \<and>
      (\<forall>x. \<exists>c. f_cos lib (f_radians lib (Finite x)) = Some (Finite c) \<and> \<bar>c\<bar> \<le> 1) \<and>
      (\<forall>c d. \<bar>c\<bar> \<le> 1 \<and> \<bar>d\<bar> \<le> 1 \<longrightarrow> (\<exists>m. f_mul lib (Finite c) (Finite d) = Finite m)) \<and>
      (\<forall>m. f_mul lib (Finite m) (Finite 0) = Finite 0) \<and>
      f_add lib (Finite 0) (Finite 0) = Finite 0 \<and>
      f_sqrt lib (Finite 0) = Some (Finite 0) \<and>
      f_sub lib (Finite 1) (Finite 0) = Finite 1 \<and>
      f_sqrt lib (Finite 1) = Some (Finite 1) \<and>
      f_atan2 lib (Finite 0) (Finite 1) = Finite 0)"

text \<open>
  The distance of a record from the query point, when its coordinates can be read and
  \<^verbatim>\<open>haversine\<close> returns; \<open>None\<close> otherwise.
\<close>

definition record_distance :: "pymath \<Rightarrow> pyfloat \<Rightarrow> pyfloat \<Rightarrow> pydict \<Rightarrow> pyfloat option" where
  "record_distance lib lat lon r =
     (case coords lib r of
        Inl _ \<Rightarrow> None
      | Inr (rl, rn) \<Rightarrow> (case haversine lib lat lon rl rn of Inl _ \<Rightarrow> None | Inr d \<Rightarrow> Some d))"

definition within_radius :: "pymath \<Rightarrow> pyfloat \<Rightarrow> pyfloat \<Rightarrow> pyfloat \<Rightarrow> pydict \<Rightarrow> bool" where
  "within_radius lib lat lon max_km r =
     (case record_distance lib lat lon r of None \<Rightarrow> False | Some d \<Rightarrow> float_le d max_km)"

text \<open>A record whose coordinates can be read and for which \<^verbatim>\<open>haversine\<close> raises.\<close>

definition haversine_raises :: "pymath \<Rightarrow> pyfloat \<Rightarrow> pyfloat \<Rightarrow> pydict \<Rightarrow> bool" where
  "haversine_raises lib lat lon r =
     (case coords lib r of Inl _ \<Rightarrow> False | Inr (rl, rn) \<Rightarrow> isl (haversine lib lat lon rl rn))"

text \<open>A record whose latitude or longitude is missing or cannot be read as a number.\<close>

definition malformed :: "pymath \<Rightarrow> pydict \<Rightarrow> bool" where
  "malformed lib r =
     ((case r ''latitude'' of None \<Rightarrow> True | Some v \<Rightarrow> isl (py_float lib v)) \<or>
      (case r ''longitude'' of None \<Rightarrow> True | Some v \<Rightarrow> isl (py_float lib v)))"

text \<open>A record paired with its distance, as the loop stores it in \<^verbatim>\<open>candidates\<close>.\<close>

definition keyed :: "pymath \<Rightarrow> pyfloat \<Rightarrow> pyfloat \<Rightarrow> pydict \<Rightarrow> pydict \<times> pyfloat" where
  "keyed lib lat lon r = (r, the (record_distance lib lat lon r))"

text \<open>The value of \<^verbatim>\<open>aqi\<close> and of \<^verbatim>\<open>aqi_val\<close> in \<^verbatim>\<open>build_embed\<close>.\<close>

definition aqi_of :: "pydict \<Rightarrow> pyval" where
  "aqi_of data = dict_get data ''aqi'' (PStr ''N/A'')"

definition aqi_val_of :: "(string \<Rightarrow> int option) \<Rightarrow> pydict \<Rightarrow> int option" where
  "aqi_val_of ints data = (case py_int ints (aqi_of data) of Inl _ \<Rightarrow> None | Inr n \<Rightarrow> Some n)"

text \<open>The seven severity buckets of the specification's table: remark and colour.\<close>

definition severity_buckets :: "(string \<times> nat) list" where
  "severity_buckets =
     [(remark_no_data, 0x808080),
      (remark_good, 0x008000),
      (remark_moderate, 0xFFFF00),
      (remark_sensitive, 0xFFA500),
      (remark_unhealthy, 0xFF0000),
      (remark_very_unhealthy, 0x800080),
      (remark_hazardous, 0xA52A2A)]"

text \<open>
  The names of the thirteen entries of the payload, in order: location, AQI, status, the
  six pollutant readings, wind speed, wind direction, update time, remark.
\<close>

definition field_names :: "string list" where
  "field_names =
     [name_region, ''AQI'', name_status, ''PM2.5'', ''PM10'', name_o3, ''CO'', name_so2, name_no2,
      name_wind_speed, name_wind_direc, name_publishtime, name_remark]"

text \<open>The optional fields of a record, each with the position of its entry in the payload.\<close>

definition optional_fields :: "(nat \<times> string) list" where
  "optional_fields =
     [(2, ''status''), (3, ''pm2.5''), (4, ''pm10''), (5, ''o3''), (6, ''co''), (7, ''so2''),
      (8, ''no2''), (9, ''wind_speed''), (10, ''wind_direc''), (11, ''publishtime'')]"

section \<open>Sample inputs\<close>

text \<open>
  A float library for the samples: exact arithmetic on the finite numbers, the results of
  Python on the others, and \<^verbatim>\<open>float\<close> on the strings that the samples use.
\<close>

definition inf_signed :: "real \<Rightarrow> pyfloat" where
  "inf_signed x = (if x = 0 then NaN else if 0 < x then PosInf else NegInf)"

definition exact_add :: "pyfloat \<Rightarrow> pyfloat \<Rightarrow> pyfloat" where
  "exact_add a b =
     (case (a, b) of
        (NaN, _) \<Rightarrow> NaN
      | (_, NaN) \<Rightarrow> NaN
      | (Finite x, Finite y) \<Rightarrow> Finite (x + y)
      | (PosInf, NegInf) \<Rightarrow> NaN
      | (NegInf, PosInf) \<Rightarrow> NaN
      | (PosInf, _) \<Rightarrow> PosInf
      | (_, PosInf) \<Rightarrow> PosInf
      | _ \<Rightarrow> NegInf)"

definition exact_sub :: "pyfloat \<Rightarrow> pyfloat \<Rightarrow> pyfloat" where
  "exact_sub a b = exact_add a (f_neg b)"

definition exact_mul :: "pyfloat \<Rightarrow> pyfloat \<Rightarrow> pyfloat" where
  "exact_mul a b =
     (case (a, b) of
        (NaN, _) \<Rightarrow> NaN
      | (_, NaN) \<Rightarrow> NaN
      | (Finite x, Finite y) \<Rightarrow> Finite (x * y)
      | (Finite x, PosInf) \<Rightarrow> inf_signed x
      | (Finite x, NegInf) \<Rightarrow> inf_signed (- x)
      | (PosInf, Finite y) \<Rightarrow> inf_signed y
      | (NegInf, Finite y) \<Rightarrow> inf_signed (- y)
      | (PosInf, PosInf) \<Rightarrow> PosInf
      | (NegInf, NegInf) \<Rightarrow> PosInf
      | _ \<Rightarrow> NegInf)"

definition exact_scale :: "real \<Rightarrow> pyfloat \<Rightarrow> pyfloat" where
  "exact_scale c a = (case a of Finite x \<Rightarrow> Finite (x * c) | _ \<Rightarrow> a)"

definition exact_pow2 :: "pyfloat \<Rightarrow> pyfloat" where
  "exact_pow2 a = exact_mul a a"

definition exact_sin :: "pyfloat \<Rightarrow> pyfloat option" where
  "exact_sin a = (case a of Finite x \<Rightarrow> Some (Finite (sin x)) | NaN \<Rightarrow> Some NaN | _ \<Rightarrow> None)"

definition exact_cos :: "pyfloat \<Rightarrow> pyfloat option" where
  "exact_cos a = (case a of Finite x \<Rightarrow> Some (Finite (cos x)) | NaN \<Rightarrow> Some NaN | _ \<Rightarrow> None)"

definition exact_sqrt :: "pyfloat \<Rightarrow> pyfloat option" where
  "exact_sqrt a =
     (case a of
        Finite x \<Rightarrow> if x < 0 then None else Some (Finite (sqrt x))
      | NaN \<Rightarrow> Some NaN
      | PosInf \<Rightarrow> Some PosInf
      | NegInf \<Rightarrow> None)"

definition atan2 :: "real \<Rightarrow> real \<Rightarrow> real" where
  "atan2 y x =
     (if 0 < x then arctan (y / x)
      else if x < 0 then (if 0 \<le> y then arctan (y / x) + pi else arctan (y / x) - pi)
      else if 0 < y then pi / 2
      else if y < 0 then - (pi / 2)
      else 0)"

definition exact_atan2 :: "pyfloat \<Rightarrow> pyfloat \<Rightarrow> pyfloat" where
  "exact_atan2 y x =
     (case (y, x) of
        (NaN, _) \<Rightarrow> NaN
      | (_, NaN) \<Rightarrow> NaN
      | (Finite a, Finite b) \<Rightarrow> Finite (atan2 a b)
      | (Finite a, PosInf) \<Rightarrow> Finite 0
      | (Finite a, NegInf) \<Rightarrow> Finite (if a < 0 then - pi else pi)
      | (PosInf, Finite b) \<Rightarrow> Finite (pi / 2)
      | (NegInf, Finite b) \<Rightarrow> Finite (- (pi / 2))
      | (PosInf, PosInf) \<Rightarrow> Finite (pi / 4)
      | (PosInf, NegInf) \<Rightarrow> Finite (3 * pi / 4)
      | (NegInf, PosInf) \<Rightarrow> Finite (- (pi / 4))
      | (NegInf, NegInf) \<Rightarrow> Finite (- (3 * pi / 4)))"

definition exact_float_of_int :: "int \<Rightarrow> pyfloat option" where
  "exact_float_of_int i =
     (if \<bar>i\<bar> < 2 ^ 1024 - 2 ^ 970 then Some (Finite (real_of_int i)) else None)"

definition sample_lib :: pymath where
  "sample_lib =
     \<lparr>float_of_str = map_of [(''0'', Finite 0), (''0.0'', Finite 0), (''180'', Finite 180),
                              (''inf'', PosInf)],
      float_of_int = exact_float_of_int,
      f_radians = exact_scale (pi / 180),
      f_sub = exact_sub,
      f_div2 = exact_scale (1 / 2),
      f_sin = exact_sin,
      f_cos = exact_cos,
      f_pow2 = exact_pow2,
      f_mul = exact_mul,
      f_add = exact_add,
      f_sqrt = exact_sqrt,
      f_atan2 = exact_atan2\<rparr>"

text \<open>
  \<^verbatim>\<open>int\<close> on the strings that the samples use, station records for the matcher, for the
  formatter and for the poll cycle, a webhook that accepts every payload, and a state in
  which an older revision has been seen.
\<close>

definition sample_ints :: "string \<Rightarrow> int option" where
  "sample_ints = map_of [(''51'', 51), (''-5'', - 5)]"

definition station_far :: pydict where
  "station_far = map_of [(''sitename'', PStr ''far''), (''latitude'', PStr ''0''), (''longitude'', PStr ''180'')]"

definition station_here :: pydict where
  "station_here = map_of [(''sitename'', PStr ''here''), (''latitude'', PStr ''0.0''), (''longitude'', PStr ''0.0'')]"

definition station_bad :: pydict where
  "station_bad = map_of [(''sitename'', PStr ''bad''), (''latitude'', PStr ''abc''), (''longitude'', PStr ''0'')]"

definition station_same :: pydict where
  "station_same = map_of [(''sitename'', PStr ''same''), (''latitude'', PInt 0), (''longitude'', PInt 0)]"

definition station_inf :: pydict where
  "station_inf = map_of [(''sitename'', PStr ''inf''), (''latitude'', PStr ''inf''), (''longitude'', PStr ''0'')]"

definition station_huge :: pydict where
  "station_huge = map_of [(''sitename'', PStr ''huge''), (''latitude'', PInt (10 ^ 400)), (''longitude'', PInt 0)]"

definition station_minimal :: pydict where
  "station_minimal = map_of [(''county'', PStr ''Taipei''), (''sitename'', PStr ''Songshan'')]"

definition station_abc :: pydict where
  "station_abc =
     map_of [(''county'', PStr ''Taipei''), (''sitename'', PStr ''Songshan''), (''aqi'', PStr ''abc'')]"

definition accepting :: "payload \<Rightarrow> bool" where
  "accepting p = True"

definition station_51 :: pydict where
  "station_51 =
     map_of [(''county'', PStr ''Taipei''), (''sitename'', PStr ''Songshan''), (''aqi'', PStr ''51'')]"

definition station_neg :: pydict where
  "station_neg =
     map_of [(''county'', PStr ''Taipei''), (''sitename'', PStr ''Songshan''), (''aqi'', PInt (- 5))]"

definition station_rev :: pydict where
  "station_rev =
     map_of [(''county'', PStr ''Taipei''), (''sitename'', PStr ''Songshan''),
             (''aqi'', PStr ''51''), (''ImportDate'', PStr ''2024-01-01T00:00'')]"

definition station_no_county :: pydict where
  "station_no_county =
     map_of [(''sitename'', PStr ''Songshan''), (''aqi'', PStr ''51''),
             (''ImportDate'', PStr ''2024-01-01T00:00'')]"

definition state_seen_old :: poll_state where
  "state_seen_old = \<lparr>last_import = PStr ''2023-12-31T23:00'', posted = [], printed = []\<rparr>"

section \<open>Properties of the distance\<close>

lemma f_neg_neg: "f_neg (f_neg a) = a"
  by (cases a) (simp_all add: f_neg_def)

lemma sin_term_swap:
  assumes "sign_symmetric lib"
  shows "f_sin lib (f_div2 lib (f_radians lib (f_sub lib y x))) =
         map_option f_neg (f_sin lib (f_div2 lib (f_radians lib (f_sub lib x y))))"
proof -
  have swap: "f_sub lib y x = f_neg (f_sub lib x y)"
    using assms unfolding sign_symmetric_def by blast
  have r: "f_radians lib (f_neg u) = f_neg (f_radians lib u)" for u
    using assms unfolding sign_symmetric_def by blast
  have d: "f_div2 lib (f_neg u) = f_neg (f_div2 lib u)" for u
    using assms unfolding sign_symmetric_def by blast
  have s: "f_sin lib (f_neg u) = map_option f_neg (f_sin lib u)" for u
    using assms unfolding sign_symmetric_def by blast
  show ?thesis
    by (subst swap) (simp only: r d s)
qed

lemma haversine_a_sym:
  assumes "sign_symmetric lib"
  shows "haversine_a lib lat1 lon1 lat2 lon2 = haversine_a lib lat2 lon2 lat1 lon1"
proof -
  have p: "f_pow2 lib (f_neg u) = f_pow2 lib u" for u
    using assms unfolding sign_symmetric_def by blast
  have m: "f_mul lib u v = f_mul lib v u" for u v
    using assms unfolding sign_symmetric_def by blast
  show ?thesis
    unfolding haversine_a_def Let_def
      sin_term_swap [OF assms, of lat1 lat2] sin_term_swap [OF assms, of lon1 lon2]
    by (auto simp: p m [of "Finite 0"] intro: arg_cong2 [where f = "f_add lib"] arg_cong2 [where f = "f_mul lib"] m
          split: option.splits)
qed

lemma haversine_sym:
  "sign_symmetric lib \<Longrightarrow> haversine lib lat1 lon1 lat2 lon2 = haversine lib lat2 lon2 lat1 lon1"
  by (simp add: haversine_def haversine_a_sym [of lib lat1 lon1 lat2 lon2])

lemma haversine_a_zero:
  assumes "exact_at_zero lib"
  shows "haversine_a lib (Finite x) (Finite y) (Finite x) (Finite y) = Some (Finite 0)"
proof -
  obtain c where c: "f_cos lib (f_radians lib (Finite x)) = Some (Finite c)" "\<bar>c\<bar> \<le> 1"
    using assms unfolding exact_at_zero_def by blast
  obtain m where m: "f_mul lib (Finite c) (Finite c) = Finite m"
    using assms c(2) unfolding exact_at_zero_def by blast
  have z: "f_sub lib (Finite x) (Finite x) = Finite 0" "f_sub lib (Finite y) (Finite y) = Finite 0"
    "f_radians lib (Finite 0) = Finite 0" "f_div2 lib (Finite 0) = Finite 0"
    "f_sin lib (Finite 0) = Some (Finite 0)" "f_pow2 lib (Finite 0) = Finite 0"
    "f_mul lib (Finite m) (Finite 0) = Finite 0" "f_add lib (Finite 0) (Finite 0) = Finite 0"
    using assms unfolding exact_at_zero_def by blast+
  show ?thesis
    by (simp add: haversine_a_def Let_def z c m)
qed

lemma haversine_zero:
  assumes "exact_at_zero lib"
  shows "haversine lib (Finite x) (Finite y) (Finite x) (Finite y) = Inr (Finite 0)"
proof -
  have z: "f_sqrt lib (Finite 0) = Some (Finite 0)" "f_sub lib (Finite 1) (Finite 0) = Finite 1"
    "f_sqrt lib (Finite 1) = Some (Finite 1)" "f_atan2 lib (Finite 0) (Finite 1) = Finite 0"
    "f_mul lib (Finite 12742) (Finite 0) = Finite 0"
    using assms unfolding exact_at_zero_def by blast+
  show ?thesis
    by (simp add: haversine_def haversine_a_zero [OF assms] z)
qed

lemma haversine_radius:
  "haversine lib lat1 lon1 lat2 lon2 = Inr d \<Longrightarrow> \<exists>t. d = f_mul lib (Finite (6371 * 2)) t"
  by (auto simp: haversine_def split: option.splits)

lemma sample_lib_sel:
  "float_of_int sample_lib = exact_float_of_int"
  "f_radians sample_lib = exact_scale (pi / 180)"
  "f_sub sample_lib = exact_sub"
  "f_div2 sample_lib = exact_scale (1 / 2)"
  "f_sin sample_lib = exact_sin"
  "f_cos sample_lib = exact_cos"
  "f_pow2 sample_lib = exact_pow2"
  "f_mul sample_lib = exact_mul"
  "f_add sample_lib = exact_add"
  "f_sqrt sample_lib = exact_sqrt"
  "f_atan2 sample_lib = exact_atan2"
  by (simp_all add: sample_lib_def)

lemma sample_lib_sign_symmetric: "sign_symmetric sample_lib"
  unfolding sign_symmetric_def sample_lib_sel
proof (intro conjI allI)
  fix x y :: pyfloat
  show "exact_sub y x = f_neg (exact_sub x y)"
    by (cases x; cases y) (simp_all add: exact_sub_def exact_add_def f_neg_def)
  show "exact_scale (pi / 180) (f_neg x) = f_neg (exact_scale (pi / 180) x)"
    by (cases x) (simp_all add: exact_scale_def f_neg_def)
  show "exact_scale (1 / 2) (f_neg x) = f_neg (exact_scale (1 / 2) x)"
    by (cases x) (simp_all add: exact_scale_def f_neg_def)
  show "exact_sin (f_neg x) = map_option f_neg (exact_sin x)"
    by (cases x) (simp_all add: exact_sin_def f_neg_def)
  show "exact_pow2 (f_neg x) = exact_pow2 x"
    by (cases x) (simp_all add: exact_pow2_def exact_mul_def f_neg_def)
  show "exact_mul x y = exact_mul y x"
    by (cases x; cases y) (simp_all add: exact_mul_def mult.commute)
qed

lemma sample_lib_exact_at_zero: "exact_at_zero sample_lib"
  unfolding exact_at_zero_def sample_lib_sel
  by (simp add: exact_sub_def exact_add_def f_neg_def exact_scale_def exact_sin_def exact_cos_def
        exact_pow2_def exact_mul_def exact_sqrt_def exact_atan2_def atan2_def)

lemma haversine_samples:
  "haversine sample_lib (Finite 0) (Finite 0) (Finite 0) (Finite 0) = Inr (Finite 0)"
  "haversine sample_lib (Finite 0) (Finite 0) (Finite 0) (Finite 180) = Inr (Finite (6371 * pi))"
  "haversine sample_lib (Finite 0) (Finite 180) (Finite 0) (Finite 0) = Inr (Finite (6371 * pi))"
  "haversine sample_lib (Finite 0) (Finite 0) PosInf (Finite 0) = Inl ValueError"
  by (simp_all add: haversine_def haversine_a_def Let_def sample_lib_sel exact_sub_def exact_add_def
        f_neg_def exact_scale_def exact_sin_def exact_cos_def exact_pow2_def exact_mul_def
        exact_sqrt_def exact_atan2_def atan2_def)

text \<open>
  C7. The haversine distance is symmetric and zero on identical points, with Earth radius
  6371 km. In every float library that is sign-symmetric, \<open>distance(A,B)\<close> and
  \<open>distance(B,A)\<close> are the same float, or both raise. In every float library that is exact
  at zero, \<open>distance(A,A)\<close> is the float 0 for every finite point \<open>A\<close>. Every distance
  returned is the product of \<open>6371 * 2\<close> and an angle.
\<close>

theorem haversine_symmetric_zero:
  "(sign_symmetric lib \<longrightarrow>
      haversine lib lat1 lon1 lat2 lon2 = haversine lib lat2 lon2 lat1 lon1)
   \<and> (exact_at_zero lib \<longrightarrow>
        haversine lib (Finite x) (Finite y) (Finite x) (Finite y) = Inr (Finite 0))
   \<and> (haversine lib lat1 lon1 lat2 lon2 = Inr d \<longrightarrow> (\<exists>t. d = f_mul lib (Finite (6371 * 2)) t))"
  using haversine_sym [of lib lat1 lon1 lat2 lon2] haversine_zero [of lib x y]
    haversine_radius [of lib lat1 lon1 lat2 lon2 d]
  by blast

theorem haversine_symmetric_zero_witness:
  "sign_symmetric sample_lib \<and> exact_at_zero sample_lib
   \<and> haversine sample_lib (Finite 0) (Finite 0) (Finite 0) (Finite 180) = Inr (Finite (6371 * pi))
   \<and> haversine sample_lib (Finite 0) (Finite 180) (Finite 0) (Finite 0) = Inr (Finite (6371 * pi))
   \<and> haversine sample_lib (Finite 25) (Finite 121) (Finite 25) (Finite 121) = Inr (Finite 0)
   \<and> (\<exists>t. Finite (6371 * pi) = f_mul sample_lib (Finite (6371 * 2)) t)"
proof -
  note s = sample_lib_sign_symmetric and z = sample_lib_exact_at_zero
  have a: "haversine sample_lib (Finite 0) (Finite 0) (Finite 0) (Finite 180) = Inr (Finite (6371 * pi))"
    by (rule haversine_samples)
  from s a
    haversine_symmetric_zero [of sample_lib "Finite 0" "Finite 0" "Finite 0" "Finite 180" 25 121 "Finite (6371 * pi)"]
  show ?thesis using z by simp
qed

section \<open>Properties of the station matcher\<close>

lemma haversine_error: "haversine lib lat1 lon1 lat2 lon2 = Inl e \<Longrightarrow> e = ValueError"
  by (auto simp: haversine_def split: option.splits)

lemma find_nearest_loop_raises:
  "list_ex (haversine_raises lib lat lon) records \<Longrightarrow>
     find_nearest_loop lib records lat lon max_km cands = Inl ValueError"
proof (induction records arbitrary: cands)
  case Nil
  then show ?case by simp
next
  case (Cons r rs)
  show ?case
  proof (cases "coords lib r")
    case (Inl e)
    with Cons show ?thesis by (simp add: haversine_raises_def)
  next
    case (Inr c)
    obtain rl rn where c: "c = (rl, rn)" by (cases c)
    show ?thesis
    proof (cases "haversine lib lat lon rl rn")
      case (Inl e)
      with Inr c haversine_error [of lib lat lon rl rn e] show ?thesis by simp
    next
      case d: (Inr d)
      with Cons Inr c show ?thesis by (simp add: haversine_raises_def)
    qed
  qed
qed

lemma find_nearest_loop_returns:
  "\<not> list_ex (haversine_raises lib lat lon) records \<Longrightarrow>
     find_nearest_loop lib records lat lon max_km cands =
       Inr (cands @ map (keyed lib lat lon) (filter (within_radius lib lat lon max_km) records))"
proof (induction records arbitrary: cands)
  case Nil
  show ?case by simp
next
  case (Cons r rs)
  show ?case
  proof (cases "coords lib r")
    case (Inl e)
    with Cons show ?thesis
      by (simp add: within_radius_def record_distance_def)
  next
    case (Inr c)
    obtain rl rn where c: "c = (rl, rn)" by (cases c)
    from Cons.prems Inr c obtain d where d: "haversine lib lat lon rl rn = Inr d"
      by (cases "haversine lib lat lon rl rn") (simp_all add: haversine_raises_def)
    with Cons Inr c show ?thesis
      by (simp add: within_radius_def record_distance_def keyed_def)
  qed
qed

lemma insort_key_keyed:
  "insort_key snd (x, f x) (map (\<lambda>r. (r, f r)) xs) = map (\<lambda>r. (r, f r)) (insort_key f x xs)"
  by (induction xs) simp_all

lemma sort_key_keyed:
  "sort_key snd (map (\<lambda>r. (r, f r)) xs) = map (\<lambda>r. (r, f r)) (sort_key f xs)"
  by (induction xs) (simp_all add: insort_key_keyed)

lemma find_nearest_raises:
  "list_ex (haversine_raises lib lat lon) records \<Longrightarrow>
     find_nearest lib records lat lon max_km = Inl ValueError"
  by (simp add: find_nearest_def find_nearest_loop_raises)

lemma find_nearest_returns:
  assumes "\<not> list_ex (haversine_raises lib lat lon) records"
  shows "find_nearest lib records lat lon max_km =
     Inr (sort_key (\<lambda>r. the (record_distance lib lat lon r))
            (filter (within_radius lib lat lon max_km) records))"
proof -
  have k: "keyed lib lat lon = (\<lambda>r. (r, the (record_distance lib lat lon r)))"
    by (simp add: keyed_def fun_eq_iff)
  show ?thesis
    by (simp add: find_nearest_def find_nearest_loop_returns [OF assms] k sort_key_keyed o_def)
qed

lemma within_radius_distance:
  "within_radius lib lat lon max_km r \<Longrightarrow>
     record_distance lib lat lon r = Some (the (record_distance lib lat lon r))
     \<and> float_le (the (record_distance lib lat lon r)) max_km"
  by (auto simp: within_radius_def split: option.splits)

lemma float_le_not_nan: "float_le a b \<Longrightarrow> a \<noteq> NaN"
  by (cases a; cases b) (simp_all add: float_le_def)

lemma less_eq_float_le: "a \<noteq> NaN \<Longrightarrow> b \<noteq> NaN \<Longrightarrow> a \<le> b \<Longrightarrow> float_le a b"
  by (cases a; cases b) (simp_all add: float_le_def less_eq_pyfloat_def)

lemma malformed_coords: "malformed lib r \<longleftrightarrow> isl (coords lib r)"
  by (auto simp: malformed_def coords_def dict_item_def split: option.splits sum.splits)

lemma malformed_outside:
  "malformed lib r \<Longrightarrow> \<not> within_radius lib lat lon max_km r \<and> \<not> haversine_raises lib lat lon r"
  by (auto simp: malformed_coords within_radius_def record_distance_def haversine_raises_def isl_def)

lemma find_nearest_loop_skip:
  "isl (coords lib r) \<Longrightarrow>
     find_nearest_loop lib (xs @ r # ys) lat lon max_km cands =
     find_nearest_loop lib (xs @ ys) lat lon max_km cands"
  by (induction xs arbitrary: cands) (auto simp: isl_def split: sum.splits)

lemma small_int: "exact_float_of_int 0 = Some (Finite 0)"
  by (simp add: exact_float_of_int_def)

lemma huge_int: "exact_float_of_int (10 ^ 400) = None"
  by (simp add: exact_float_of_int_def)

lemma sample_coords:
  "coords sample_lib station_far = Inr (Finite 0, Finite 180)"
  "coords sample_lib station_here = Inr (Finite 0, Finite 0)"
  "coords sample_lib station_bad = Inl ValueError"
  "coords sample_lib station_same = Inr (Finite 0, Finite 0)"
  "coords sample_lib station_inf = Inr (PosInf, Finite 0)"
  "coords sample_lib station_huge = Inl OverflowError"
  by (simp_all add: coords_def dict_item_def py_float_def sample_lib_def small_int huge_int [simplified]
        station_far_def station_here_def station_bad_def station_same_def station_inf_def
        station_huge_def)

lemma pi_bounds: "0 \<le> 6371 * pi" "\<not> 6371 * pi \<le> 0" "6371 * pi \<le> 30000"
proof -
  show "0 \<le> 6371 * pi" by simp
  show "\<not> 6371 * pi \<le> 0" using pi_gt_zero by (simp add: not_le)
  show "6371 * pi \<le> 30000" using pi_less_4 by simp
qed

lemma sample_raises:
  "\<not> haversine_raises sample_lib (Finite 0) (Finite 0) station_far"
  "\<not> haversine_raises sample_lib (Finite 0) (Finite 0) station_here"
  "\<not> haversine_raises sample_lib (Finite 0) (Finite 0) station_bad"
  "\<not> haversine_raises sample_lib (Finite 0) (Finite 0) station_same"
  "haversine_raises sample_lib (Finite 0) (Finite 0) station_inf"
  by (simp_all add: haversine_raises_def sample_coords haversine_samples)

lemma sample_distances:
  "record_distance sample_lib (Finite 0) (Finite 0) station_far = Some (Finite (6371 * pi))"
  "record_distance sample_lib (Finite 0) (Finite 0) station_here = Some (Finite 0)"
  "record_distance sample_lib (Finite 0) (Finite 0) station_bad = None"
  "record_distance sample_lib (Finite 0) (Finite 0) station_same = Some (Finite 0)"
  by (simp_all add: record_distance_def sample_coords haversine_samples)

lemma find_nearest_sample:
  "find_nearest sample_lib [station_far, station_here, station_bad, station_same]
     (Finite 0) (Finite 0) (Finite 30000) = Inr [station_here, station_same, station_far]"
  by (simp add: find_nearest_def sample_coords haversine_samples pi_bounds float_le_def
        less_eq_pyfloat_def)

lemma find_nearest_sample_raises:
  "find_nearest sample_lib [station_here, station_inf, station_same]
     (Finite 0) (Finite 0) (Finite 30000) = Inl ValueError"
  by (simp add: find_nearest_def sample_coords haversine_samples float_le_def)

text \<open>
  C2. \<^verbatim>\<open>find_nearest\<close> and the records within the radius. When \<^verbatim>\<open>haversine\<close> raises for
  no record whose coordinates can be read, \<^verbatim>\<open>find_nearest\<close> returns a list \<open>out\<close> that
  holds exactly the records of the input whose distance to the query point is at most the
  radius (as a multiset: each as often as the input has it), in non-decreasing order of
  distance \<open>ds\<close>, with no distance above the radius; records at one and the same distance
  \<open>d\<close> keep the order they have in the input. When \<^verbatim>\<open>haversine\<close> raises for such a
  record, \<^verbatim>\<open>find_nearest\<close> raises \<^verbatim>\<open>ValueError\<close>: the call is outside the \<^verbatim>\<open>try\<close> block.
\<close>

theorem find_nearest_sorted_unless_haversine_raises:
  "(list_ex (haversine_raises lib lat lon) records \<longrightarrow>
      find_nearest lib records lat lon max_km = Inl ValueError)
   \<and> (\<not> list_ex (haversine_raises lib lat lon) records \<longrightarrow>
       (\<exists>out ds. find_nearest lib records lat lon max_km = Inr out
          \<and> mset out = mset (filter (within_radius lib lat lon max_km) records)
          \<and> map (record_distance lib lat lon) out = map Some ds
          \<and> sorted_wrt float_le ds
          \<and> (\<forall>d\<in>set ds. float_le d max_km)
          \<and> (\<forall>d. filter (\<lambda>r. record_distance lib lat lon r = Some d) out =
                   filter (\<lambda>r. record_distance lib lat lon r = Some d)
                     (filter (within_radius lib lat lon max_km) records))))"
proof (intro conjI impI)
  assume "list_ex (haversine_raises lib lat lon) records"
  then show "find_nearest lib records lat lon max_km = Inl ValueError"
    by (rule find_nearest_raises)
next
  assume quiet: "\<not> list_ex (haversine_raises lib lat lon) records"
  define f where "f = (\<lambda>r. the (record_distance lib lat lon r))"
  define ins where "ins = filter (within_radius lib lat lon max_km) records"
  define out where "out = sort_key f ins"
  have res: "find_nearest lib records lat lon max_km = Inr out"
    by (simp add: find_nearest_returns [OF quiet] out_def f_def ins_def)
  have inside: "record_distance lib lat lon r = Some (f r) \<and> float_le (f r) max_km"
    if "r \<in> set ins" for r
    using that within_radius_distance [of lib lat lon max_km r] by (simp add: ins_def f_def)
  have set_out: "set out = set ins"
    by (simp add: out_def)
  have perm: "mset out = mset ins"
    by (simp add: out_def)
  have dists: "map (record_distance lib lat lon) out = map Some (map f out)"
    using inside set_out by simp
  have "sorted (map f out)"
    by (simp add: out_def)
  then have "sorted_wrt (\<le>) (map f out)"
    by simp
  moreover have "float_le a b"
    if "a \<in> set (map f out)" "b \<in> set (map f out)" "a \<le> b" for a b
  proof -
    from that(1,2) inside set_out have "float_le a max_km" "float_le b max_km"
      by auto
    then have "a \<noteq> NaN" "b \<noteq> NaN"
      by (auto dest: float_le_not_nan)
    with that(3) show ?thesis by (simp add: less_eq_float_le)
  qed
  ultimately have ordered: "sorted_wrt float_le (map f out)"
    by (rule sorted_wrt_mono_rel [rotated])
  have bound: "\<forall>d\<in>set (map f out). float_le d max_km"
    using inside set_out by auto
  have stable: "filter (\<lambda>r. record_distance lib lat lon r = Some d) out =
                filter (\<lambda>r. record_distance lib lat lon r = Some d) ins" for d
  proof -
    have "filter (\<lambda>r. record_distance lib lat lon r = Some d) out = filter (\<lambda>r. f r = d) out"
      using inside set_out by (intro filter_cong) auto
    also have "\<dots> = filter (\<lambda>r. f r = d) ins"
      unfolding out_def by (rule sort_key_stable)
    also have "\<dots> = filter (\<lambda>r. record_distance lib lat lon r = Some d) ins"
      using inside by (intro filter_cong) auto
    finally show ?thesis .
  qed
  show "\<exists>out ds. find_nearest lib records lat lon max_km = Inr out
          \<and> mset out = mset (filter (within_radius lib lat lon max_km) records)
          \<and> map (record_distance lib lat lon) out = map Some ds
          \<and> sorted_wrt float_le ds
          \<and> (\<forall>d\<in>set ds. float_le d max_km)
          \<and> (\<forall>d. filter (\<lambda>r. record_distance lib lat lon r = Some d) out =
                   filter (\<lambda>r. record_distance lib lat lon r = Some d)
                     (filter (within_radius lib lat lon max_km) records))"
    using res perm dists ordered bound stable unfolding ins_def by blast
qed

theorem find_nearest_sorted_unless_haversine_raises_witness:
  "\<not> list_ex (haversine_raises sample_lib (Finite 0) (Finite 0))
        [station_far, station_here, station_bad, station_same]
   \<and> find_nearest sample_lib [station_far, station_here, station_bad, station_same]
        (Finite 0) (Finite 0) (Finite 30000) = Inr [station_here, station_same, station_far]
   \<and> map (record_distance sample_lib (Finite 0) (Finite 0)) [station_here, station_same, station_far]
       = map Some [Finite 0, Finite 0, Finite (6371 * pi)]
   \<and> sorted_wrt float_le [Finite 0, Finite 0, Finite (6371 * pi)]
   \<and> list_all (\<lambda>d. float_le d (Finite 30000)) [Finite 0, Finite 0, Finite (6371 * pi)]
   \<and> filter (\<lambda>r. record_distance sample_lib (Finite 0) (Finite 0) r = Some (Finite 0))
        [station_here, station_same, station_far]
       = filter (\<lambda>r. record_distance sample_lib (Finite 0) (Finite 0) r = Some (Finite 0))
           (filter (within_radius sample_lib (Finite 0) (Finite 0) (Finite 30000))
              [station_far, station_here, station_bad, station_same])
   \<and> list_ex (haversine_raises sample_lib (Finite 0) (Finite 0))
        [station_here, station_inf, station_same]
   \<and> find_nearest sample_lib [station_here, station_inf, station_same]
        (Finite 0) (Finite 0) (Finite 30000) = Inl ValueError"
proof -
  have quiet: "\<not> list_ex (haversine_raises sample_lib (Finite 0) (Finite 0))
        [station_far, station_here, station_bad, station_same]"
    by (simp add: sample_raises)
  have loud: "list_ex (haversine_raises sample_lib (Finite 0) (Finite 0))
        [station_here, station_inf, station_same]"
    by (simp add: sample_raises)
  from quiet find_nearest_sorted_unless_haversine_raises
      [of sample_lib "Finite 0" "Finite 0" "[station_far, station_here, station_bad, station_same]"
          "Finite 30000"]
  obtain out ds where
    res: "find_nearest sample_lib [station_far, station_here, station_bad, station_same]
            (Finite 0) (Finite 0) (Finite 30000) = Inr out"
    and dists: "map (record_distance sample_lib (Finite 0) (Finite 0)) out = map Some ds"
    and ordered: "sorted_wrt float_le ds"
    and bound: "\<forall>d\<in>set ds. float_le d (Finite 30000)"
    and stable: "\<forall>d. filter (\<lambda>r. record_distance sample_lib (Finite 0) (Finite 0) r = Some d) out =
              filter (\<lambda>r. record_distance sample_lib (Finite 0) (Finite 0) r = Some d)
                (filter (within_radius sample_lib (Finite 0) (Finite 0) (Finite 30000))
                   [station_far, station_here, station_bad, station_same])"
    by blast
  have out: "out = [station_here, station_same, station_far]"
    using res by (simp add: find_nearest_sample)
  have ds: "ds = [Finite 0, Finite 0, Finite (6371 * pi)]"
    using dists unfolding out by (auto simp: sample_distances)
  from loud find_nearest_sorted_unless_haversine_raises
      [of sample_lib "Finite 0" "Finite 0" "[station_here, station_inf, station_same]" "Finite 30000"]
  have raised: "find_nearest sample_lib [station_here, station_inf, station_same]
        (Finite 0) (Finite 0) (Finite 30000) = Inl ValueError"
    by blast
  show ?thesis
    using quiet loud raised res dists ordered bound stable [rule_format, of "Finite 0"]
    unfolding out ds by (simp add: list_all_iff)
qed

text \<open>
  C6. A record whose latitude or longitude is missing or cannot be read as a number is
  skipped without an error of its own, wherever it stands in the input: \<^verbatim>\<open>find_nearest\<close>
  does on the input what it does on the input without that record, and the record is in
  no list that it returns.
\<close>

theorem find_nearest_skips_malformed:
  assumes "malformed lib r"
  shows "find_nearest lib (xs @ r # ys) lat lon max_km = find_nearest lib (xs @ ys) lat lon max_km
         \<and> (\<forall>out. find_nearest lib (xs @ r # ys) lat lon max_km = Inr out \<longrightarrow> r \<notin> set out)"
proof -
  have skip: "find_nearest lib (xs @ r # ys) lat lon max_km = find_nearest lib (xs @ ys) lat lon max_km"
    using assms by (simp add: find_nearest_def malformed_coords find_nearest_loop_skip)
  have "r \<notin> set out" if "find_nearest lib (xs @ r # ys) lat lon max_km = Inr out" for out
  proof (cases "list_ex (haversine_raises lib lat lon) (xs @ r # ys)")
    case True
    with that show ?thesis by (simp add: find_nearest_raises)
  next
    case False
    from that find_nearest_returns [OF False, of max_km]
    have "set out = set (filter (within_radius lib lat lon max_km) (xs @ r # ys))"
      by auto
    with malformed_outside [OF assms, of lat lon max_km] show ?thesis by auto
  qed
  with skip show ?thesis by blast
qed

theorem find_nearest_skips_malformed_witness:
  "malformed sample_lib station_bad \<and> malformed sample_lib station_huge
   \<and> find_nearest sample_lib ([station_far, station_here] @ station_bad # [station_same])
        (Finite 0) (Finite 0) (Finite 30000) = Inr [station_here, station_same, station_far]
   \<and> find_nearest sample_lib ([station_far, station_here] @ [station_same])
        (Finite 0) (Finite 0) (Finite 30000) = Inr [station_here, station_same, station_far]
   \<and> station_bad \<notin> set [station_here, station_same, station_far]"
proof -
  have bad: "malformed sample_lib station_bad" and huge: "malformed sample_lib station_huge"
    by (simp_all add: malformed_coords sample_coords)
  have res: "find_nearest sample_lib ([station_far, station_here] @ station_bad # [station_same])
        (Finite 0) (Finite 0) (Finite 30000) = Inr [station_here, station_same, station_far]"
    using find_nearest_sample by simp
  show ?thesis
    using bad huge res
      find_nearest_skips_malformed [OF bad, of "[station_far, station_here]" "[station_same]"
        "Finite 0" "Finite 0" "Finite 30000"]
    by auto
qed

section \<open>Properties of the notification payload\<close>

lemma build_embed_present:
  assumes "data ''county'' = Some c" and "data ''sitename'' = Some s"
  shows "\<exists>p e fs. build_embed ints data = Inr p \<and> embeds p = [e] \<and> embed_fields e = fs
           \<and> length fs = 13
           \<and> color e = snd (remark_color (aqi_val_of ints data))
           \<and> field_value (fs ! 12) = PStr (fst (remark_color (aqi_val_of ints data)))
           \<and> field_value (fs ! 1) = aqi_of data"
  using assms
  by (simp add: build_embed_def dict_item_def Let_def aqi_of_def aqi_val_of_def mk_field_def
        split: prod.splits)

lemma build_embed_missing:
  "data ''county'' = None \<Longrightarrow> build_embed ints data = Inl (KeyError ''county'')"
  "data ''county'' = Some c \<Longrightarrow> data ''sitename'' = None \<Longrightarrow> build_embed ints data = Inl (KeyError ''sitename'')"
  by (simp_all add: build_embed_def dict_item_def Let_def split: prod.splits)

lemma remark_color_bucket: "remark_color v \<in> set severity_buckets"
  by (simp add: remark_color_def severity_buckets_def split: option.splits)

lemma severity_buckets_colors: "distinct (map snd severity_buckets) \<and> length severity_buckets = 7"
  by (simp add: severity_buckets_def)

lemma bucket_by_color:
  "b \<in> set severity_buckets \<Longrightarrow> b' \<in> set severity_buckets \<Longrightarrow> snd b = snd b' \<Longrightarrow> b = b'"
  using severity_buckets_colors by (metis distinct_map inj_onD)

text \<open>
  C3, as amended. \<^verbatim>\<open>build_embed\<close> returns a payload for every record that has the keys
  \<^verbatim>\<open>county\<close> and \<^verbatim>\<open>sitename\<close>, whatever else is missing and whatever the AQI value is,
  and the remark and colour of the payload are those of exactly one of the seven severity
  buckets. For a record without \<^verbatim>\<open>county\<close> or without \<^verbatim>\<open>sitename\<close> it raises
  \<^verbatim>\<open>KeyError\<close>: the two keys are read with \<^verbatim>\<open>data[...]\<close>, not with \<^verbatim>\<open>data.get\<close>.
\<close>

theorem build_embed_total_given_city:
  "(data ''county'' \<noteq> None \<and> data ''sitename'' \<noteq> None \<longrightarrow>
      (\<exists>p e. build_embed ints data = Inr p \<and> embeds p = [e] \<and>
         (\<exists>!b. b \<in> set severity_buckets \<and>
                field_value (embed_fields e ! 12) = PStr (fst b) \<and> color e = snd b)))
   \<and> (data ''county'' = None \<or> data ''sitename'' = None \<longrightarrow>
        (\<exists>k. build_embed ints data = Inl (KeyError k)))
   \<and> distinct severity_buckets \<and> length severity_buckets = 7"
proof -
  have present: "\<exists>p e. build_embed ints data = Inr p \<and> embeds p = [e] \<and>
         (\<exists>!b. b \<in> set severity_buckets \<and>
                field_value (embed_fields e ! 12) = PStr (fst b) \<and> color e = snd b)"
    if "data ''county'' \<noteq> None \<and> data ''sitename'' \<noteq> None"
  proof -
    from that obtain c s where "data ''county'' = Some c" "data ''sitename'' = Some s"
      by auto
    from build_embed_present [OF this, where ints = ints] obtain p e where
      p: "build_embed ints data = Inr p" "embeds p = [e]"
      and col: "color e = snd (remark_color (aqi_val_of ints data))"
      and rem: "field_value (embed_fields e ! 12) = PStr (fst (remark_color (aqi_val_of ints data)))"
      by auto
    have "\<exists>!b. b \<in> set severity_buckets \<and>
                field_value (embed_fields e ! 12) = PStr (fst b) \<and> color e = snd b"
    proof (rule ex1I [of _ "remark_color (aqi_val_of ints data)"])
      show "remark_color (aqi_val_of ints data) \<in> set severity_buckets \<and>
            field_value (embed_fields e ! 12) = PStr (fst (remark_color (aqi_val_of ints data))) \<and>
            color e = snd (remark_color (aqi_val_of ints data))"
        using col rem remark_color_bucket by simp
    next
      fix b
      assume "b \<in> set severity_buckets \<and>
              field_value (embed_fields e ! 12) = PStr (fst b) \<and> color e = snd b"
      then have "b \<in> set severity_buckets" and "snd b = snd (remark_color (aqi_val_of ints data))"
        using col by (simp_all only:)
      then show "b = remark_color (aqi_val_of ints data)"
        by (rule bucket_by_color [OF _ remark_color_bucket])
    qed
    with p show ?thesis by blast
  qed
  have absent: "\<exists>k. build_embed ints data = Inl (KeyError k)"
    if "data ''county'' = None \<or> data ''sitename'' = None"
    using that build_embed_missing [where data = data and ints = ints] by (cases "data ''county''") auto
  have "distinct severity_buckets"
    using severity_buckets_colors by (metis distinct_map)
  then show ?thesis
    using present absent severity_buckets_colors by blast
qed

theorem build_embed_total_given_city_witness:
  "station_abc ''county'' \<noteq> None \<and> station_abc ''sitename'' \<noteq> None
   \<and> (\<exists>p e. build_embed sample_ints station_abc = Inr p \<and> embeds p = [e] \<and>
         field_value (embed_fields e ! 12) = PStr remark_no_data \<and> color e = 0x808080)
   \<and> (\<exists>k. build_embed sample_ints (map_of [(''aqi'', PStr ''abc'')]) = Inl (KeyError k))"
proof -
  have here: "station_abc ''county'' \<noteq> None \<and> station_abc ''sitename'' \<noteq> None"
    by (simp add: station_abc_def)
  have eval: "build_embed sample_ints station_abc = Inr p \<Longrightarrow> embeds p = [e] \<Longrightarrow>
      field_value (embed_fields e ! 12) = PStr remark_no_data \<and> color e = 0x808080" for p e
    by (auto simp: build_embed_def station_abc_def dict_item_def dict_get_def Let_def py_int_def
          sample_ints_def remark_color_def mk_field_def)
  have gone: "map_of [(''aqi'', PStr ''abc'')] ''county'' = None \<or>
              map_of [(''aqi'', PStr ''abc'')] ''sitename'' = None"
    by simp
  show ?thesis
    using here eval gone
      build_embed_total_given_city [of station_abc sample_ints]
      build_embed_total_given_city [of "map_of [(''aqi'', PStr ''abc'')]" sample_ints]
    by blast
qed

text \<open>A record without \<^verbatim>\<open>county\<close>: no payload.\<close>

theorem build_embed_missing_county_counterexample:
  "build_embed sample_ints (map_of [(''sitename'', PStr ''Taipei''), (''aqi'', PInt 50)]) = Inl (KeyError ''county'')"
  by (simp add: build_embed_def dict_item_def Let_def split: prod.splits)

lemma aqi_of_missing: "data ''aqi'' = None \<Longrightarrow> ints ''N/A'' = None \<Longrightarrow> aqi_val_of ints data = None"
  by (simp add: aqi_val_of_def aqi_of_def dict_get_def py_int_def)

lemma py_int_samples:
  "py_int sample_ints (PStr ''51'') = Inr 51"
  "py_int sample_ints (PStr ''abc'') = Inl ValueError"
  "py_int sample_ints (PStr ''N/A'') = Inl ValueError"
  "py_int sample_ints (PStr ''-5'') = Inr (- 5)"
  "py_int sample_ints (PInt (- 5)) = Inr (- 5)"
  by (simp_all add: py_int_def sample_ints_def)

lemma build_embed_fields:
  assumes "data ''county'' = Some c" and "data ''sitename'' = Some s"
  shows "\<exists>p e remark. build_embed ints data = Inr p \<and> embeds p = [e] \<and>
     embed_fields e =
       [mk_field name_region (PStr (py_str c @ '' / '' @ py_str s)) True,
        mk_field ''AQI'' (dict_get data ''aqi'' (PStr ''N/A'')) True,
        mk_field name_status (dict_get data ''status'' (PStr ''N/A'')) True,
        mk_field ''PM2.5'' (dict_get data ''pm2.5'' (PStr ''N/A'')) True,
        mk_field ''PM10'' (dict_get data ''pm10'' (PStr ''N/A'')) True,
        mk_field name_o3 (dict_get data ''o3'' (PStr ''N/A'')) True,
        mk_field ''CO'' (dict_get data ''co'' (PStr ''N/A'')) True,
        mk_field name_so2 (dict_get data ''so2'' (PStr ''N/A'')) True,
        mk_field name_no2 (dict_get data ''no2'' (PStr ''N/A'')) True,
        mk_field name_wind_speed (dict_get data ''wind_speed'' (PStr ''N/A'')) True,
        mk_field name_wind_direc (dict_get data ''wind_direc'' (PStr ''N/A'')) True,
        mk_field name_publishtime (dict_get data ''publishtime'' (PStr ''N/A'')) False,
        mk_field name_remark (PStr remark) False]"
  using assms
  by (auto simp: build_embed_def dict_item_def Let_def split: prod.splits)

lemma mk_field_sel:
  "field_name (mk_field n v i) = n" "field_value (mk_field n v i) = v"
  "field_inline (mk_field n v i) = i"
  by (simp_all add: mk_field_def)

lemma build_embed_Inr_iff:
  "(\<exists>p. build_embed ints r = Inr p) \<longleftrightarrow> r ''county'' \<noteq> None \<and> r ''sitename'' \<noteq> None"
proof (cases "r ''county''")
  case None
  then show ?thesis by (simp add: build_embed_missing)
next
  case c: (Some c)
  show ?thesis
  proof (cases "r ''sitename''")
    case None
    with c show ?thesis by (simp add: build_embed_missing)
  next
    case (Some s)
    with c build_embed_present [of r c s ints] show ?thesis by auto
  qed
qed

text \<open>
  C4. \<^verbatim>\<open>build_embed\<close> classifies the AQI by the table: an AQI that \<^verbatim>\<open>int\<close> cannot read
  gives the "no data" remark and gray (\<open>0x808080\<close>), and so does a missing one, which
  defaults to the string \<^verbatim>\<open>N/A\<close> (\<^verbatim>\<open>int\<close> rejects it: \<open>ints ''N/A'' = None\<close>); an AQI of at
  most 50 gives good and green (\<open>0x008000\<close>), above 50 and at most 100 moderate and yellow
  (\<open>0xFFFF00\<close>), above 100 and at most 150 unhealthy for sensitive groups and orange
  (\<open>0xFFA500\<close>), above 150 and at most 200 unhealthy for all and red (\<open>0xFF0000\<close>), above
  200 and at most 300 very unhealthy and purple (\<open>0x800080\<close>), above 300 hazardous and
  brown (\<open>0xA52A2A\<close>). The remark is the last entry of the payload.
\<close>

theorem build_embed_severity_table:
  assumes "data ''county'' = Some c" and "data ''sitename'' = Some s"
  shows "\<exists>p e. build_embed ints data = Inr p \<and> embeds p = [e] \<and>
     (case py_int ints (dict_get data ''aqi'' (PStr ''N/A'')) of
        Inl _ \<Rightarrow>
          field_value (embed_fields e ! 12) = PStr remark_no_data \<and> color e = 0x808080
      | Inr n \<Rightarrow>
          (n \<le> 50 \<longrightarrow>
             field_value (embed_fields e ! 12) = PStr remark_good \<and> color e = 0x008000) \<and>
          (50 < n \<and> n \<le> 100 \<longrightarrow>
             field_value (embed_fields e ! 12) = PStr remark_moderate \<and> color e = 0xFFFF00) \<and>
          (100 < n \<and> n \<le> 150 \<longrightarrow>
             field_value (embed_fields e ! 12) = PStr remark_sensitive \<and> color e = 0xFFA500) \<and>
          (150 < n \<and> n \<le> 200 \<longrightarrow>
             field_value (embed_fields e ! 12) = PStr remark_unhealthy \<and> color e = 0xFF0000) \<and>
          (200 < n \<and> n \<le> 300 \<longrightarrow>
             field_value (embed_fields e ! 12) = PStr remark_very_unhealthy \<and> color e = 0x800080) \<and>
          (300 < n \<longrightarrow>
             field_value (embed_fields e ! 12) = PStr remark_hazardous \<and> color e = 0xA52A2A))
     \<and> (data ''aqi'' = None \<and> ints ''N/A'' = None \<longrightarrow>
          field_value (embed_fields e ! 12) = PStr remark_no_data \<and> color e = 0x808080)"
proof -
  from build_embed_present [OF assms, where ints = ints] obtain p e where
    p: "build_embed ints data = Inr p" "embeds p = [e]"
    and col: "color e = snd (remark_color (aqi_val_of ints data))"
    and rem: "field_value (embed_fields e ! 12) = PStr (fst (remark_color (aqi_val_of ints data)))"
    by auto
  have table: "case py_int ints (dict_get data ''aqi'' (PStr ''N/A'')) of
        Inl _ \<Rightarrow>
          field_value (embed_fields e ! 12) = PStr remark_no_data \<and> color e = 0x808080
      | Inr n \<Rightarrow>
          (n \<le> 50 \<longrightarrow>
             field_value (embed_fields e ! 12) = PStr remark_good \<and> color e = 0x008000) \<and>
          (50 < n \<and> n \<le> 100 \<longrightarrow>
             field_value (embed_fields e ! 12) = PStr remark_moderate \<and> color e = 0xFFFF00) \<and>
          (100 < n \<and> n \<le> 150 \<longrightarrow>
             field_value (embed_fields e ! 12) = PStr remark_sensitive \<and> color e = 0xFFA500) \<and>
          (150 < n \<and> n \<le> 200 \<longrightarrow>
             field_value (embed_fields e ! 12) = PStr remark_unhealthy \<and> color e = 0xFF0000) \<and>
          (200 < n \<and> n \<le> 300 \<longrightarrow>
             field_value (embed_fields e ! 12) = PStr remark_very_unhealthy \<and> color e = 0x800080) \<and>
          (300 < n \<longrightarrow>
             field_value (embed_fields e ! 12) = PStr remark_hazardous \<and> color e = 0xA52A2A)"
    unfolding col rem
    by (simp add: aqi_val_of_def aqi_of_def remark_color_def split: sum.splits)
  have missing: "data ''aqi'' = None \<and> ints ''N/A'' = None \<longrightarrow>
          field_value (embed_fields e ! 12) = PStr remark_no_data \<and> color e = 0x808080"
    unfolding col rem by (simp add: aqi_of_missing remark_color_def)
  from p table missing show ?thesis
    by (intro exI conjI)
qed

theorem build_embed_severity_table_witness:
  "station_51 ''county'' = Some (PStr ''Taipei'') \<and> station_51 ''sitename'' = Some (PStr ''Songshan'')
   \<and> (\<exists>p e. build_embed sample_ints station_51 = Inr p \<and> embeds p = [e] \<and>
         field_value (embed_fields e ! 12) = PStr remark_moderate \<and> color e = 0xFFFF00)"
proof -
  have c: "station_51 ''county'' = Some (PStr ''Taipei'')"
    and s: "station_51 ''sitename'' = Some (PStr ''Songshan'')"
    by (simp_all add: station_51_def)
  have a: "py_int sample_ints (dict_get station_51 ''aqi'' (PStr ''N/A'')) = Inr 51"
    by (simp add: station_51_def dict_get_def py_int_samples)
  show ?thesis
    using c s build_embed_severity_table [OF c s, where ints = sample_ints] by (auto simp: a)
qed

text \<open>
  C10. An AQI that reads as an integer below zero, such as \<open>-5\<close>, gets the lowest bucket,
  the "good" remark and green, and not the "no data" remark.
\<close>

theorem build_embed_negative_aqi_good:
  assumes "data ''county'' = Some c" and "data ''sitename'' = Some s"
    and "py_int ints (dict_get data ''aqi'' (PStr ''N/A'')) = Inr n" and "n < 0"
  shows "\<exists>p e. build_embed ints data = Inr p \<and> embeds p = [e] \<and>
           field_value (embed_fields e ! 12) = PStr remark_good \<and> color e = 0x008000
           \<and> remark_good \<noteq> remark_no_data"
proof -
  from build_embed_present [OF assms(1,2), where ints = ints] obtain p e where
    p: "build_embed ints data = Inr p" "embeds p = [e]"
    and col: "color e = snd (remark_color (aqi_val_of ints data))"
    and rem: "field_value (embed_fields e ! 12) = PStr (fst (remark_color (aqi_val_of ints data)))"
    by auto
  have v: "aqi_val_of ints data = Some n"
    using assms(3) by (simp add: aqi_val_of_def aqi_of_def)
  have "remark_color (Some n) = (remark_good, 0x008000)"
    using assms(4) by (simp add: remark_color_def)
  moreover have "remark_good \<noteq> remark_no_data"
    by (simp add: remark_good_def remark_no_data_def)
  ultimately show ?thesis
    using p col rem v by simp
qed

theorem build_embed_negative_aqi_good_witness:
  "station_neg ''county'' = Some (PStr ''Taipei'') \<and> station_neg ''sitename'' = Some (PStr ''Songshan'')
   \<and> py_int sample_ints (dict_get station_neg ''aqi'' (PStr ''N/A'')) = Inr (- 5) \<and> (- 5 :: int) < 0
   \<and> (\<exists>p e. build_embed sample_ints station_neg = Inr p \<and> embeds p = [e] \<and>
           field_value (embed_fields e ! 12) = PStr remark_good \<and> color e = 0x008000)"
proof -
  have c: "station_neg ''county'' = Some (PStr ''Taipei'')"
    and s: "station_neg ''sitename'' = Some (PStr ''Songshan'')"
    by (simp_all add: station_neg_def)
  have a: "py_int sample_ints (dict_get station_neg ''aqi'' (PStr ''N/A'')) = Inr (- 5)"
    by (simp add: station_neg_def dict_get_def py_int_samples)
  have n: "(- 5 :: int) < 0" by simp
  show ?thesis
    using c s a n build_embed_negative_aqi_good [OF c s a n] by blast
qed

text \<open>
  C9. The payload has thirteen entries, named and ordered as \<^const>\<open>field_names\<close> lists
  them: location, AQI, status, six pollutant readings, wind speed, wind direction, update
  time, remark. The entry of each optional field holds the value of the record, and the
  string \<^verbatim>\<open>N/A\<close> when the record lacks the field; so does the AQI entry.
\<close>

theorem build_embed_fields_layout:
  assumes "data ''county'' = Some c" and "data ''sitename'' = Some s"
  shows "\<exists>p e. build_embed ints data = Inr p \<and> embeds p = [e]
     \<and> map field_name (embed_fields e) = field_names
     \<and> (\<forall>(i, k)\<in>set optional_fields.
           field_value (embed_fields e ! i) = (case data k of None \<Rightarrow> PStr ''N/A'' | Some v \<Rightarrow> v))
     \<and> field_value (embed_fields e ! 0) = PStr (py_str c @ '' / '' @ py_str s)
     \<and> field_value (embed_fields e ! 1) = (case data ''aqi'' of None \<Rightarrow> PStr ''N/A'' | Some v \<Rightarrow> v)
     \<and> (\<exists>remark. field_value (embed_fields e ! 12) = PStr remark)"
proof -
  from build_embed_fields [OF assms, where ints = ints] obtain p e remark where
    p: "build_embed ints data = Inr p" "embeds p = [e]"
    and fs: "embed_fields e =
       [mk_field name_region (PStr (py_str c @ '' / '' @ py_str s)) True,
        mk_field ''AQI'' (dict_get data ''aqi'' (PStr ''N/A'')) True,
        mk_field name_status (dict_get data ''status'' (PStr ''N/A'')) True,
        mk_field ''PM2.5'' (dict_get data ''pm2.5'' (PStr ''N/A'')) True,
        mk_field ''PM10'' (dict_get data ''pm10'' (PStr ''N/A'')) True,
        mk_field name_o3 (dict_get data ''o3'' (PStr ''N/A'')) True,
        mk_field ''CO'' (dict_get data ''co'' (PStr ''N/A'')) True,
        mk_field name_so2 (dict_get data ''so2'' (PStr ''N/A'')) True,
        mk_field name_no2 (dict_get data ''no2'' (PStr ''N/A'')) True,
        mk_field name_wind_speed (dict_get data ''wind_speed'' (PStr ''N/A'')) True,
        mk_field name_wind_direc (dict_get data ''wind_direc'' (PStr ''N/A'')) True,
        mk_field name_publishtime (dict_get data ''publishtime'' (PStr ''N/A'')) False,
        mk_field name_remark (PStr remark) False]"
    by blast
  have names: "map field_name (embed_fields e) = field_names"
    unfolding fs by (simp add: mk_field_sel field_names_def)
  have opt: "\<forall>(i, k)\<in>set optional_fields.
           field_value (embed_fields e ! i) = (case data k of None \<Rightarrow> PStr ''N/A'' | Some v \<Rightarrow> v)"
    unfolding fs by (simp add: optional_fields_def mk_field_sel dict_get_def)
  have city: "field_value (embed_fields e ! 0) = PStr (py_str c @ '' / '' @ py_str s)"
    unfolding fs by (simp add: mk_field_sel)
  have aqi: "field_value (embed_fields e ! 1) = (case data ''aqi'' of None \<Rightarrow> PStr ''N/A'' | Some v \<Rightarrow> v)"
    unfolding fs by (simp add: mk_field_sel dict_get_def)
  have rem: "\<exists>remark. field_value (embed_fields e ! 12) = PStr remark"
    unfolding fs by (simp add: mk_field_sel)
  show ?thesis
    by (rule exI [of _ p], rule exI [of _ e], intro conjI) (fact p names opt city aqi rem)+
qed

theorem build_embed_fields_layout_witness:
  "station_minimal ''county'' = Some (PStr ''Taipei'')
   \<and> station_minimal ''sitename'' = Some (PStr ''Songshan'')
   \<and> (\<exists>p e. build_embed sample_ints station_minimal = Inr p \<and> embeds p = [e]
        \<and> map field_name (embed_fields e) = field_names
        \<and> field_value (embed_fields e ! 0) = PStr ''Taipei / Songshan''
        \<and> field_value (embed_fields e ! 1) = PStr ''N/A''
        \<and> field_value (embed_fields e ! 2) = PStr ''N/A''
        \<and> field_value (embed_fields e ! 11) = PStr ''N/A'')"
proof -
  have c: "station_minimal ''county'' = Some (PStr ''Taipei'')"
    and s: "station_minimal ''sitename'' = Some (PStr ''Songshan'')"
    by (simp_all add: station_minimal_def)
  from build_embed_fields_layout [OF c s, where ints = sample_ints] obtain p e where
    p: "build_embed sample_ints station_minimal = Inr p" "embeds p = [e]"
    and names: "map field_name (embed_fields e) = field_names"
    and opt: "\<forall>(i, k)\<in>set optional_fields.
           field_value (embed_fields e ! i) =
             (case station_minimal k of None \<Rightarrow> PStr ''N/A'' | Some v \<Rightarrow> v)"
    and city: "field_value (embed_fields e ! 0) = PStr (py_str (PStr ''Taipei'') @ '' / '' @ py_str (PStr ''Songshan''))"
    and aqi: "field_value (embed_fields e ! 1) =
             (case station_minimal ''aqi'' of None \<Rightarrow> PStr ''N/A'' | Some v \<Rightarrow> v)"
    by blast
  have f0: "field_value (embed_fields e ! 0) = PStr ''Taipei / Songshan''"
    using city by (simp add: py_str_def)
  have f1: "field_value (embed_fields e ! 1) = PStr ''N/A''"
    using aqi by (simp add: station_minimal_def)
  have "(2, ''status'') \<in> set optional_fields" and "(11, ''publishtime'') \<in> set optional_fields"
    by (simp_all add: optional_fields_def)
  with opt have f2: "field_value (embed_fields e ! 2) = PStr ''N/A''"
    and f11: "field_value (embed_fields e ! 11) = PStr ''N/A''"
    by (auto simp: station_minimal_def)
  show ?thesis
    using c s p names f0 f1 f2 f11 by blast
qed

section \<open>Properties of the poll cycle\<close>

lemma py_eq_refl: "py_eq a a"
  by (cases a) (simp_all add: py_eq_def)

lemma py_ne_str: "py_ne (PStr s) PNone" "py_ne (PStr s) (PStr t) \<longleftrightarrow> s \<noteq> t"
  by (simp_all add: py_ne_def py_eq_def)

lemma check_fresh:
  assumes "r ''ImportDate'' = Some newest" and "py_ne newest (last_import w)"
  shows "check_and_notify ints webhook (Inr (r # rs)) w =
     (case build_embed ints r of
        Inl e \<Rightarrow> w\<lparr>last_import := newest, printed := printed w @ [e]\<rparr>
      | Inr p \<Rightarrow>
          if webhook p then w\<lparr>last_import := newest, posted := posted w @ [p]\<rparr>
          else w\<lparr>last_import := newest, posted := posted w @ [p], printed := printed w @ [HTTPError]\<rparr>)"
  using assms
  by (simp add: check_and_notify_def dict_item_def send_to_discord_def Let_def split: sum.splits)

lemma check_stale:
  assumes "r ''ImportDate'' = Some newest" and "\<not> py_ne newest (last_import w)"
  shows "check_and_notify ints webhook (Inr (r # rs)) w = w"
  using assms by (simp add: check_and_notify_def dict_item_def)

lemma check_no_revision:
  assumes "r ''ImportDate'' = None"
  shows "check_and_notify ints webhook (Inr (r # rs)) w = w\<lparr>printed := printed w @ [KeyError ''ImportDate'']\<rparr>"
  using assms by (simp add: check_and_notify_def dict_item_def)

lemma check_empty: "check_and_notify ints webhook (Inr []) w = w"
  by (simp add: check_and_notify_def)

lemma check_failed_fetch: "check_and_notify ints webhook (Inl e) w = w\<lparr>printed := printed w @ [e]\<rparr>"
  by (simp add: check_and_notify_def)

lemma check_fresh_last:
  assumes "r ''ImportDate'' = Some newest" and "py_ne newest (last_import w)"
  shows "last_import (check_and_notify ints webhook (Inr (r # rs)) w) = newest"
  using assms by (simp add: check_fresh [of r newest w] split: sum.splits)

lemma check_fresh_acted:
  assumes "r ''ImportDate'' = Some newest" and "py_ne newest (last_import w)"
  shows "posted (check_and_notify ints webhook (Inr (r # rs)) w) \<noteq> posted w
         \<or> printed (check_and_notify ints webhook (Inr (r # rs)) w) \<noteq> printed w"
  using assms by (simp add: check_fresh [of r newest w] split: sum.splits)

lemma check_fresh_posted:
  assumes "r ''ImportDate'' = Some newest" and "py_ne newest (last_import w)"
  shows "posted (check_and_notify ints webhook (Inr (r # rs)) w) =
           posted w @ (case build_embed ints r of Inl e \<Rightarrow> [] | Inr p \<Rightarrow> [p])"
  using assms by (simp add: check_fresh [of r newest w] split: sum.splits)

lemma check_twice:
  "check_and_notify ints webhook' fetched (check_and_notify ints webhook fetched w) = 
     (case fetched of Inl e \<Rightarrow> (check_and_notify ints webhook fetched w)\<lparr>printed := printed (check_and_notify ints webhook fetched w) @ [e]\<rparr>
      | Inr [] \<Rightarrow> check_and_notify ints webhook fetched w
      | Inr (r # rs) \<Rightarrow> (case r ''ImportDate'' of None \<Rightarrow> (check_and_notify ints webhook fetched w)\<lparr>printed := printed (check_and_notify ints webhook fetched w) @ [KeyError ''ImportDate'']\<rparr>
           | Some newest \<Rightarrow> check_and_notify ints webhook fetched w))"
proof (cases fetched)
  case (Inl e)
  then show ?thesis by (simp add: check_failed_fetch)
next
  case (Inr records)
  show ?thesis
  proof (cases records)
    case Nil
    with Inr show ?thesis by (simp add: check_empty)
  next
    case (Cons r rs)
    show ?thesis
    proof (cases "r ''ImportDate''")
      case None
      with Inr Cons show ?thesis by (simp add: check_no_revision)
    next
      case (Some newest)
      show ?thesis
      proof (cases "py_ne newest (last_import w)")
        case True
        have "last_import (check_and_notify ints webhook (Inr (r # rs)) w) = newest"
          using Some True by (simp add: check_fresh_last [of r newest w])
        then have "\<not> py_ne newest (last_import (check_and_notify ints webhook (Inr (r # rs)) w))"
          by (simp add: py_ne_def py_eq_refl)
        with Some Inr Cons show ?thesis
          by (simp add: check_stale [of r newest])
      next
        case False
        with Some Inr Cons show ?thesis
          by (simp add: check_stale [of r newest])
      qed
    qed
  qed
qed

lemma check_twice_posted:
  "posted (check_and_notify ints webhook' fetched (check_and_notify ints webhook fetched w)) =
     posted (check_and_notify ints webhook fetched w)"
  by (simp add: check_twice split: sum.splits list.splits option.splits)

lemma station_rev_fields:
  "station_rev ''ImportDate'' = Some (PStr ''2024-01-01T00:00'')"
  "station_rev ''county'' \<noteq> None" "station_rev ''sitename'' \<noteq> None"
  by (simp_all add: station_rev_def)

text \<open>
  C8. When the fetch fails, the cycle prints the error and does nothing else: no payload
  is posted and \<^verbatim>\<open>_last_import\<close> keeps its value.
\<close>

theorem fetch_failure_keeps_state:
  "check_and_notify ints webhook (Inl e) w = w\<lparr>printed := printed w @ [e]\<rparr>
   \<and> last_import (check_and_notify ints webhook (Inl e) w) = last_import w
   \<and> posted (check_and_notify ints webhook (Inl e) w) = posted w"
  by (simp add: check_failed_fetch)

text \<open>
  C1. The freshness check of the poll cycle, on a first record whose revision is
  \<open>newest\<close>. When \<open>newest\<close> differs from the stored value, the cycle stores it and goes on
  to notify (a payload is posted, or the error of the attempt is printed); when it equals
  the stored value, the cycle changes nothing. The variable starts as \<^verbatim>\<open>None\<close>, from
  which every revision string differs, so the first call with a revision string is a
  new one; two revision strings differ exactly when they are different strings.
\<close>

theorem freshness_tracker:
  assumes "r ''ImportDate'' = Some newest"
  shows "(py_ne newest (last_import w) \<longrightarrow>
            last_import (check_and_notify ints webhook (Inr (r # rs)) w) = newest
            \<and> (posted (check_and_notify ints webhook (Inr (r # rs)) w) \<noteq> posted w
               \<or> printed (check_and_notify ints webhook (Inr (r # rs)) w) \<noteq> printed w))
       \<and> (\<not> py_ne newest (last_import w) \<longrightarrow> check_and_notify ints webhook (Inr (r # rs)) w = w)
       \<and> last_import initial_state = PNone
       \<and> py_ne (PStr s) PNone
       \<and> (py_ne (PStr s) (PStr t) \<longleftrightarrow> s \<noteq> t)"
  using assms check_fresh_last [of r newest w ints webhook rs]
    check_fresh_acted [of r newest w ints webhook rs] check_stale [of r newest w ints webhook rs]
  by (simp add: py_ne_str initial_state_def)

theorem freshness_tracker_witness:
  "station_rev ''ImportDate'' = Some (PStr ''2024-01-01T00:00'')
   \<and> py_ne (PStr ''2024-01-01T00:00'') (last_import initial_state)
   \<and> last_import (check_and_notify sample_ints accepting (Inr [station_rev]) initial_state) = PStr ''2024-01-01T00:00''
   \<and> check_and_notify sample_ints accepting (Inr [station_rev])
        (check_and_notify sample_ints accepting (Inr [station_rev]) initial_state) =
      check_and_notify sample_ints accepting (Inr [station_rev]) initial_state"
proof -
  have r: "station_rev ''ImportDate'' = Some (PStr ''2024-01-01T00:00'')"
    by (rule station_rev_fields)
  have new: "py_ne (PStr ''2024-01-01T00:00'') (last_import initial_state)"
    by (simp add: initial_state_def py_ne_str)
  have seen: "last_import (check_and_notify sample_ints accepting (Inr [station_rev]) initial_state) = PStr ''2024-01-01T00:00''"
    using new freshness_tracker [of station_rev "PStr ''2024-01-01T00:00''" initial_state sample_ints accepting "[]", OF r]
    by blast
  then have old: "\<not> py_ne (PStr ''2024-01-01T00:00'')
                     (last_import (check_and_notify sample_ints accepting (Inr [station_rev]) initial_state))"
    by (simp add: py_ne_str)
  have "check_and_notify sample_ints accepting (Inr [station_rev])
        (check_and_notify sample_ints accepting (Inr [station_rev]) initial_state) =
      check_and_notify sample_ints accepting (Inr [station_rev]) initial_state"
    using old freshness_tracker [of station_rev "PStr ''2024-01-01T00:00''"
        "check_and_notify sample_ints accepting (Inr [station_rev]) initial_state" sample_ints accepting "[]", OF r]
    by blast
  with r new seen show ?thesis by simp
qed

text \<open>
  C5, as amended. An empty record set changes nothing. Otherwise the first record is the
  latest: one payload, the one \<^verbatim>\<open>build_embed\<close> makes of it, is posted when its revision
  differs from the stored one and the record has \<^verbatim>\<open>county\<close> and \<^verbatim>\<open>sitename\<close>;
  nothing is posted when the revision equals the stored one, when the record lacks one of
  the two keys, or when it has no \<^verbatim>\<open>ImportDate\<close>. A second cycle on the same fetch result
  posts nothing more.
\<close>

theorem poll_cycle:
  "check_and_notify ints webhook (Inr []) w = w
   \<and> (r ''ImportDate'' = Some newest \<and> py_ne newest (last_import w)
        \<and> r ''county'' \<noteq> None \<and> r ''sitename'' \<noteq> None \<longrightarrow>
       (\<exists>p. build_embed ints r = Inr p
          \<and> posted (check_and_notify ints webhook (Inr (r # rs)) w) = posted w @ [p]))
   \<and> (r ''ImportDate'' = Some newest \<and>
        \<not> (py_ne newest (last_import w) \<and> r ''county'' \<noteq> None \<and> r ''sitename'' \<noteq> None) \<longrightarrow>
       posted (check_and_notify ints webhook (Inr (r # rs)) w) = posted w)
   \<and> (r ''ImportDate'' = None \<longrightarrow>
       posted (check_and_notify ints webhook (Inr (r # rs)) w) = posted w)
   \<and> posted (check_and_notify ints webhook' fetched (check_and_notify ints webhook fetched w)) =
       posted (check_and_notify ints webhook fetched w)"
proof -
  have one: "\<exists>p. build_embed ints r = Inr p
          \<and> posted (check_and_notify ints webhook (Inr (r # rs)) w) = posted w @ [p]"
    if "r ''ImportDate'' = Some newest \<and> py_ne newest (last_import w)
        \<and> r ''county'' \<noteq> None \<and> r ''sitename'' \<noteq> None"
  proof -
    from that build_embed_Inr_iff [of ints r] obtain p where p: "build_embed ints r = Inr p"
      by blast
    from that have "posted (check_and_notify ints webhook (Inr (r # rs)) w) =
           posted w @ (case build_embed ints r of Inl e \<Rightarrow> [] | Inr p \<Rightarrow> [p])"
      by (simp add: check_fresh_posted [of r newest w])
    with p show ?thesis by simp
  qed
  have none: "posted (check_and_notify ints webhook (Inr (r # rs)) w) = posted w"
    if "r ''ImportDate'' = Some newest \<and>
        \<not> (py_ne newest (last_import w) \<and> r ''county'' \<noteq> None \<and> r ''sitename'' \<noteq> None)"
  proof (cases "py_ne newest (last_import w)")
    case False
    with that show ?thesis by (simp add: check_stale [of r newest w])
  next
    case True
    with that build_embed_Inr_iff [of ints r] obtain e where "build_embed ints r = Inl e"
      by (cases "build_embed ints r") auto
    with that True show ?thesis
      by (simp add: check_fresh_posted [of r newest w])
  qed
  have norev: "posted (check_and_notify ints webhook (Inr (r # rs)) w) = posted w"
    if "r ''ImportDate'' = None"
    using that by (simp add: check_no_revision)
  show ?thesis
    using one none norev check_empty [of ints webhook w] check_twice_posted [of ints webhook' fetched webhook w]
    by blast
qed

theorem poll_cycle_witness:
  "station_rev ''ImportDate'' = Some (PStr ''2024-01-01T00:00'')
   \<and> py_ne (PStr ''2024-01-01T00:00'') (last_import state_seen_old)
   \<and> station_rev ''county'' \<noteq> None \<and> station_rev ''sitename'' \<noteq> None
   \<and> (\<exists>p. build_embed sample_ints station_rev = Inr p
        \<and> posted (check_and_notify sample_ints accepting (Inr [station_rev]) state_seen_old) = [p]
        \<and> posted (check_and_notify sample_ints accepting (Inr [station_rev])
                    (check_and_notify sample_ints accepting (Inr [station_rev]) state_seen_old)) = [p])"
proof -
  have new: "py_ne (PStr ''2024-01-01T00:00'') (last_import state_seen_old)"
    by (simp add: state_seen_old_def py_ne_str)
  have start: "posted state_seen_old = []"
    by (simp add: state_seen_old_def)
  from new station_rev_fields
    poll_cycle [of sample_ints accepting state_seen_old station_rev "PStr ''2024-01-01T00:00''" "[]"
                   accepting "Inr [station_rev]"]
  obtain p where p: "build_embed sample_ints station_rev = Inr p"
    and first: "posted (check_and_notify sample_ints accepting (Inr [station_rev]) state_seen_old) = posted state_seen_old @ [p]"
    and second: "posted (check_and_notify sample_ints accepting (Inr [station_rev])
                    (check_and_notify sample_ints accepting (Inr [station_rev]) state_seen_old)) =
                 posted (check_and_notify sample_ints accepting (Inr [station_rev]) state_seen_old)"
    by blast
  show ?thesis
    using new station_rev_fields p first second start by simp
qed

text \<open>
  A record set whose first record has a new revision and no \<^verbatim>\<open>county\<close>: the revision
  is stored, \<^verbatim>\<open>build_embed\<close> raises, and nothing is posted.
\<close>

theorem poll_cycle_new_revision_not_sent_counterexample:
  "py_ne (PStr ''2024-01-01T00:00'') (last_import state_seen_old)
   \<and> station_no_county ''ImportDate'' = Some (PStr ''2024-01-01T00:00'')
   \<and> check_and_notify sample_ints accepting (Inr [station_no_county]) state_seen_old =
       \<lparr>last_import = PStr ''2024-01-01T00:00'', posted = [], printed = [KeyError ''county'']\<rparr>"
  by (simp add: state_seen_old_def station_no_county_def py_ne_str check_and_notify_def
        dict_item_def build_embed_def Let_def split: prod.splits)

end
